theory Spec2Isabelle
  imports
    Complex_Main
    "HOL-Library.Sublist"
    "HOL-Library.Char_ord"
    "HOL-Library.List_Lexorder"
begin

section \<open>Python strings\<close>

text \<open>
  A Python \<open>str\<close> is a sequence of code points. The model keeps the code points below 256,
  one \<^typ>\<open>char\<close> each, which covers every literal the analysed functions search for.
  Python floats are modelled by \<^typ>\<open>real\<close>: the arithmetic is exact, IEEE rounding is
  not part of the model.
\<close>

definition cp :: "char \<Rightarrow> nat" where
  "cp c = of_char c"

text \<open>\<open>str.isspace\<close> on one code point below 256.\<close>

definition is_space :: "char \<Rightarrow> bool" where
  "is_space c = (cp c \<in> {9, 10, 11, 12, 13, 28, 29, 30, 31, 32, 133, 160})"

text \<open>\<open>str.lower()\<close>: A-Z and the Latin-1 capitals move up by 32.\<close>

definition lower_char :: "char \<Rightarrow> char" where
  "lower_char c =
     (let n = cp c in
      if (65 \<le> n \<and> n \<le> 90) \<or> (192 \<le> n \<and> n \<le> 222 \<and> n \<noteq> 215)
      then char_of (n + 32) else c)"

definition lower :: "string \<Rightarrow> string" where
  "lower s = map lower_char s"

text \<open>\<open>str.strip()\<close> without argument.\<close>

definition strip :: "string \<Rightarrow> string" where
  "strip s = rev (dropWhile is_space (rev (dropWhile is_space s)))"

text \<open>\<open>sub in s\<close> on strings.\<close>

definition py_in :: "string \<Rightarrow> string \<Rightarrow> bool" where
  "py_in sub s = sublist sub s"

text \<open>\<open>s.startswith(p)\<close> and \<open>s.endswith(p)\<close>.\<close>

definition startswith :: "string \<Rightarrow> string \<Rightarrow> bool" where
  "startswith s p = prefix p s"

definition endswith :: "string \<Rightarrow> string \<Rightarrow> bool" where
  "endswith s p = suffix p s"

text \<open>\<open>s.count(sub)\<close>: the number of non-overlapping occurrences, scanning from the left.\<close>

function count_sub :: "string \<Rightarrow> string \<Rightarrow> nat" where
  "count_sub sub s =
     (if sub = [] then length s + 1
      else if s = [] then 0
      else if prefix sub s then 1 + count_sub sub (drop (length sub) s)
      else count_sub sub (tl s))"
  by pat_completeness auto
termination
  by (relation "measure (\<lambda>(sub, s). length s)") (auto simp: neq_Nil_conv)

declare count_sub.simps [simp del]

text \<open>
  \<open>str.splitlines()\<close>: a line ends at LF, CR, CR LF, VT, FF, FS, GS, RS or NEL; the
  terminators are dropped and a trailing terminator opens no further line.
\<close>

definition is_linebreak :: "char \<Rightarrow> bool" where
  "is_linebreak c = (cp c \<in> {10, 11, 12, 13, 28, 29, 30, 133})"

fun splitlines_from :: "string \<Rightarrow> string \<Rightarrow> string list" where
  "splitlines_from cur [] = (if cur = [] then [] else [cur])"
| "splitlines_from cur (c # cs) =
     (if c = CHR 0x0D \<and> cs \<noteq> [] \<and> hd cs = CHR 0x0A then cur # splitlines_from [] (tl cs)
      else if is_linebreak c then cur # splitlines_from [] cs
      else splitlines_from (cur @ [c]) cs)"

definition splitlines :: "string \<Rightarrow> string list" where
  "splitlines s = splitlines_from [] s"

text \<open>\<open>a or b\<close> on strings: the empty string is falsy.\<close>

definition or_str :: "string \<Rightarrow> string \<Rightarrow> string" where
  "or_str a b = (if a \<noteq> [] then a else b)"

text \<open>\<open>", ".join(xs)\<close>.\<close>

fun join :: "string \<Rightarrow> string list \<Rightarrow> string" where
  "join sep [] = []"
| "join sep [x] = x"
| "join sep (x # y # ys) = x @ sep @ join sep (y # ys)"


section \<open>validators.py\<close>

record ValidationResult =
  valid :: bool
  verror :: "string option"

text \<open>
  The stack of \<open>_balanced_brackets\<close> is a list with its top at the head. \<open>closing\<close> is
  the dictionary from a closing bracket to its opener.
\<close>

definition opening_brackets :: "char set" where
  "opening_brackets = {CHR ''('', CHR ''{'', CHR ''[''}"

definition closing :: "char \<Rightarrow> char option" where
  "closing ch =
     (if ch = CHR '')'' then Some (CHR ''('')
      else if ch = CHR ''}'' then Some (CHR ''{'')
      else if ch = CHR '']'' then Some (CHR ''['')
      else None)"

fun brackets_loop :: "char list \<Rightarrow> string \<Rightarrow> bool" where
  "brackets_loop stack [] = (stack = [])"
| "brackets_loop stack (ch # rest) =
     (if ch \<in> opening_brackets then brackets_loop (ch # stack) rest
      else case closing ch of
        Some opener \<Rightarrow>
          (case stack of
             [] \<Rightarrow> False
           | tp # below \<Rightarrow> if tp \<noteq> opener then False else brackets_loop below rest)
      | None \<Rightarrow> brackets_loop stack rest)"

definition balanced_brackets :: "string \<Rightarrow> bool" where
  "balanced_brackets code = brackets_loop [] code"

definition balanced_quotes :: "string \<Rightarrow> bool" where
  "balanced_quotes code =
     (let single = count_sub [CHR 0x27] code;
          double = count_sub [CHR 0x22] code;
          backtick = count_sub [CHR 0x60] code
      in single mod 2 = 0 \<and> double mod 2 = 0 \<and> backtick mod 2 = 0)"

definition semicolon_languages :: "string set" where
  "semicolon_languages = {''javascript'', ''typescript'', ''java'', ''c'', ''cpp'', ''c++''}"

definition invalid :: "string \<Rightarrow> ValidationResult" where
  "invalid msg = \<lparr>valid = False, verror = Some msg\<rparr>"

definition is_valid :: ValidationResult where
  "is_valid = \<lparr>valid = True, verror = None\<rparr>"

text \<open>
  \<open>ast.parse\<close> belongs to the Python library, not to the repository: it is the parameter
  \<open>parse\<close>, which returns the text of the \<open>SyntaxError\<close> (\<open>str(exc)\<close>) or the tree.
\<close>

definition validate_code :: "(string \<Rightarrow> string + 'ast) \<Rightarrow> string \<Rightarrow> string \<Rightarrow> ValidationResult" where
  "validate_code parse language code =
     (let lang = lower (strip language) in
      if strip code = [] then invalid ''Empty code''
      else if lang \<in> {''generic'', ''''} then is_valid
      else if lang \<in> {''py'', ''python''} then
        (case parse code of Inl exc \<Rightarrow> invalid exc | Inr tree \<Rightarrow> is_valid)
      else if \<not> balanced_brackets code then invalid ''Unbalanced brackets/braces''
      else if \<not> balanced_quotes code then invalid ''Unbalanced quotes''
      else
        (let lines = filter (\<lambda>ln. strip ln \<noteq> []) (splitlines code) in
         if length lines \<ge> 3 \<and> \<not> py_in '';'' code \<and> lang \<in> semicolon_languages
         then invalid ''No semicolons found in multi-line code''
         else is_valid))"


section \<open>language\_detector.py\<close>

text \<open>The dictionary \<open>signals\<close>, in its insertion order.\<close>

definition signals :: "(string \<times> string list) list" where
  "signals =
     [(''python'', [''def '', ''import '', ''print('', ''async def'', ''self'', ''elif '', ''lambda '']),
      (''javascript'', [''console.log'', ''function '', ''=>'', ''var '', ''let '', ''const '']),
      (''java'', [''public class'', ''system.out'', ''public static void'']),
      (''cpp'', [''#include'', ''std::'', ''cout<<'', ''cout <<'']),
      (''c'', [''printf('', ''scanf('', ''int main('']),
      (''typescript'', [''interface '', ''type '', '': string'', '': number''])]"

definition scores :: "string \<Rightarrow> (string \<times> nat) list" where
  "scores snippet =
     map (\<lambda>(lang, patterns). (lang, length (filter (\<lambda>pat. py_in pat snippet) patterns))) signals"

definition pick_best :: "(string \<times> nat) list \<Rightarrow> string \<times> nat" where
  "pick_best sc =
     fold (\<lambda>(lang, score) (best_lang, best_score).
             if score > best_score then (lang, score) else (best_lang, best_score))
          sc (''generic'', 0)"

text \<open>
  \<open>signals[best_lang]\<close> cannot raise: with a positive best score \<open>best_lang\<close> is one of
  the keys. The model returns the \<open>generic\<close> answer on the branch that is never taken.
\<close>

definition detect_language :: "string \<Rightarrow> string \<times> real" where
  "detect_language code =
     (let snippet = lower code;
          (best_lang, best_score) = pick_best (scores snippet)
      in if best_score = 0 then (''generic'', 0)
         else case map_of signals best_lang of
           None \<Rightarrow> (''generic'', 0)
         | Some patterns \<Rightarrow>
             (let max_possible = (if length patterns \<noteq> 0 then length patterns else 1)
              in (best_lang, min 1 (real best_score / real max_possible))))"


section \<open>security.py\<close>

datatype Issue = Issue (issue_type: string) (issue_message: string) (issue_line: "int option")
  (issue_severity: "string option")

definition suspicious_patterns :: "string list" where
  "suspicious_patterns =
     [''eval('', ''exec('', ''os.system('', ''subprocess.call('', ''password'', ''secret'', ''api_key'']"

definition analyze_security :: "string \<Rightarrow> Issue list" where
  "analyze_security code =
     (let lowered = lower code in
      map (\<lambda>pattern. Issue ''security'' (''Suspicious pattern detected: '' @ pattern) None (Some ''warning''))
          (filter (\<lambda>pattern. py_in pattern lowered) suspicious_patterns))"


section \<open>The syntax tree of the grammar-aware language\<close>

text \<open>
  The classes of Python's \<open>ast\<close> module that the two visitors of
  \<open>analysis_engine.py\<close> tell apart; every other class is \<open>Other\<close>. Each node lists
  its child nodes in the order \<open>generic_visit\<close> walks them. A \<open>Call\<close> carries
  \<open>Some id\<close> when its \<open>func\<close> is an \<open>ast.Name\<close>, and a \<open>While\<close> carries the text
  \<open>ast.unparse\<close> gives for it. \<open>AsyncFunctionDef\<close> and \<open>AsyncFor\<close> are kept apart from
  \<open>Other\<close> although no visitor has a method for them: they are the functions and loops
  the visitors pass over.
\<close>

datatype node =
    FunctionDef string "node list"
  | Call "string option" "node list"
  | For "node list"
  | While string "node list"
  | ListComp "node list"
  | DictComp "node list"
  | SetComp "node list"
  | AsyncFunctionDef string "node list"
  | AsyncFor "node list"
  | Other "node list"

type_synonym parser = "string \<Rightarrow> string + node"

text \<open>Dictionaries from names to counts, as association lists with distinct keys.\<close>

definition setdefault :: "string \<Rightarrow> int \<Rightarrow> (string \<times> int) list \<Rightarrow> (string \<times> int) list" where
  "setdefault k v d = (case map_of d k of None \<Rightarrow> d @ [(k, v)] | Some old \<Rightarrow> d)"

text \<open>
  \<open>d[k] += 1\<close>. The visitors only run it with the name of the function they are in, which
  \<open>setdefault\<close> has made a key, so the \<open>KeyError\<close> of a missing key is not modelled.
\<close>

definition increment :: "string \<Rightarrow> (string \<times> int) list \<Rightarrow> (string \<times> int) list" where
  "increment k d = map (\<lambda>(k', v). if k' = k then (k', v + 1) else (k', v)) d"

text \<open>\<open>max(d.values(), default=0)\<close>.\<close>

definition max_values :: "(string \<times> int) list \<Rightarrow> int" where
  "max_values d = (case map snd d of [] \<Rightarrow> 0 | v # vs \<Rightarrow> fold max vs v)"

record ComplexityVisitor =
  loop_depth :: int
  max_loop_depth :: int
  self_calls_per_func :: "(string \<times> int) list"
  current_func :: "string option"
  has_log_loop :: bool

definition ComplexityVisitor_init :: ComplexityVisitor where
  "ComplexityVisitor_init =
     \<lparr>loop_depth = 0, max_loop_depth = 0, self_calls_per_func = [], current_func = None,
      has_log_loop = False\<rparr>"

definition enter_loop :: "ComplexityVisitor \<Rightarrow> ComplexityVisitor" where
  "enter_loop v =
     (let v1 = v\<lparr>loop_depth := loop_depth v + 1\<rparr>
      in v1\<lparr>max_loop_depth := max (max_loop_depth v1) (loop_depth v1)\<rparr>)"

definition leave_loop :: "ComplexityVisitor \<Rightarrow> ComplexityVisitor" where
  "leave_loop v = v\<lparr>loop_depth := loop_depth v - 1\<rparr>"

definition looks_logarithmic :: "string \<Rightarrow> bool" where
  "looks_logarithmic loop_src =
     (let lowered = lower loop_src in
      list_ex (\<lambda>v. py_in v lowered) [''low'', ''high'', ''start'', ''end'', ''left'', ''right'']
      \<and> (py_in ''// 2'' lowered \<or> py_in ''>> 1'' lowered \<or> py_in ''/= 2'' lowered))"

definition count_self_call :: "string option \<Rightarrow> ComplexityVisitor \<Rightarrow> ComplexityVisitor" where
  "count_self_call func v =
     (case (func, current_func v) of
        (Some fid, Some cur) \<Rightarrow>
          (if cur \<noteq> [] \<and> fid = cur
           then v\<lparr>self_calls_per_func := increment cur (self_calls_per_func v)\<rparr> else v)
      | _ \<Rightarrow> v)"

fun visit :: "node \<Rightarrow> ComplexityVisitor \<Rightarrow> ComplexityVisitor"
  and generic_visit :: "node list \<Rightarrow> ComplexityVisitor \<Rightarrow> ComplexityVisitor" where
  "generic_visit [] v = v"
| "generic_visit (n # ns) v = generic_visit ns (visit n v)"
| "visit (FunctionDef name children) v =
     (let prev_func = current_func v;
          v1 = v\<lparr>current_func := Some name,
                 self_calls_per_func := setdefault name 0 (self_calls_per_func v)\<rparr>;
          v2 = generic_visit children v1
      in v2\<lparr>current_func := prev_func\<rparr>)"
| "visit (Call func children) v = generic_visit children (count_self_call func v)"
| "visit (For children) v = leave_loop (generic_visit children (enter_loop v))"
| "visit (While loop_src children) v =
     (let v1 = enter_loop v;
          v2 = (if looks_logarithmic loop_src then v1\<lparr>has_log_loop := True\<rparr> else v1)
      in leave_loop (generic_visit children v2))"
| "visit (ListComp children) v = generic_visit children v"
| "visit (DictComp children) v = generic_visit children v"
| "visit (SetComp children) v = generic_visit children v"
| "visit (AsyncFunctionDef name children) v = generic_visit children v"
| "visit (AsyncFor children) v = generic_visit children v"
| "visit (Other children) v = generic_visit children v"

record SpaceVisitor =
  sp_self_calls_per_func :: "(string \<times> int) list"
  sp_current_func :: "string option"
  has_linear_allocation :: bool

definition SpaceVisitor_init :: SpaceVisitor where
  "SpaceVisitor_init =
     \<lparr>sp_self_calls_per_func = [], sp_current_func = None, has_linear_allocation = False\<rparr>"

definition sp_count_self_call :: "string option \<Rightarrow> SpaceVisitor \<Rightarrow> SpaceVisitor" where
  "sp_count_self_call func v =
     (case (func, sp_current_func v) of
        (Some fid, Some cur) \<Rightarrow>
          (if cur \<noteq> [] \<and> fid = cur
           then v\<lparr>sp_self_calls_per_func := increment cur (sp_self_calls_per_func v)\<rparr> else v)
      | _ \<Rightarrow> v)"

fun sp_visit :: "node \<Rightarrow> SpaceVisitor \<Rightarrow> SpaceVisitor"
  and sp_generic_visit :: "node list \<Rightarrow> SpaceVisitor \<Rightarrow> SpaceVisitor" where
  "sp_generic_visit [] v = v"
| "sp_generic_visit (n # ns) v = sp_generic_visit ns (sp_visit n v)"
| "sp_visit (FunctionDef name children) v =
     (let prev = sp_current_func v;
          v1 = v\<lparr>sp_current_func := Some name,
                 sp_self_calls_per_func := setdefault name 0 (sp_self_calls_per_func v)\<rparr>;
          v2 = sp_generic_visit children v1
      in v2\<lparr>sp_current_func := prev\<rparr>)"
| "sp_visit (Call func children) v = sp_generic_visit children (sp_count_self_call func v)"
| "sp_visit (ListComp children) v = sp_generic_visit children (v\<lparr>has_linear_allocation := True\<rparr>)"
| "sp_visit (DictComp children) v = sp_generic_visit children (v\<lparr>has_linear_allocation := True\<rparr>)"
| "sp_visit (SetComp children) v = sp_generic_visit children (v\<lparr>has_linear_allocation := True\<rparr>)"
| "sp_visit (For children) v = sp_generic_visit children v"
| "sp_visit (While loop_src children) v = sp_generic_visit children v"
| "sp_visit (AsyncFunctionDef name children) v = sp_generic_visit children v"
| "sp_visit (AsyncFor children) v = sp_generic_visit children v"
| "sp_visit (Other children) v = sp_generic_visit children v"


section \<open>analysis\_engine.py: the estimators\<close>

definition bisect_conditions :: "string list" where
  "bisect_conditions =
     [''while (low <='', ''while (low >='', ''while(low <='', ''while(low >='',
      ''while (start <='', ''while(start <='', ''while (begin <='', ''while(begin <='',
      ''while (left <='', ''while(left <='', ''while (left < right'', ''while(left < right'',
      ''while left <='', ''while left >='', ''while start <='', ''while begin <='']"

text \<open>One turn of the line loop of the text heuristic, on \<open>(max_depth, current_depth)\<close>.\<close>

definition depth_step :: "string \<Rightarrow> int \<times> int \<Rightarrow> int \<times> int" where
  "depth_step line = (\<lambda>(max_depth, current_depth).
     (let stripped = strip line;
          (max_depth1, current_depth1) =
            (if startswith stripped ''for '' \<or> startswith stripped ''while ''
             then (max max_depth (current_depth + 1), current_depth + 1)
             else (max_depth, current_depth));
          current_depth2 =
            (if endswith stripped '':'' \<and>
                \<not> (startswith stripped ''for '' \<or> startswith stripped ''while '' \<or>
                   startswith stripped ''if '' \<or> startswith stripped ''elif '')
             then max (current_depth1 - 1) 0 else current_depth1)
      in (max_depth1, current_depth2)))"

definition estimate_big_o :: "parser \<Rightarrow> string \<Rightarrow> string \<Rightarrow> string" where
  "estimate_big_o parse code language =
     (let lang = lower language in
      if lang \<in> {''python'', ''py''} then
        (case parse code of
           Inl exc \<Rightarrow> ''O(1)''
         | Inr tree \<Rightarrow>
             (let visitor = visit tree ComplexityVisitor_init;
                  max_self_calls = max_values (self_calls_per_func visitor)
              in if has_log_loop visitor then ''O(log n)''
                 else if max_self_calls \<ge> 2 then ''O(2^n)''
                 else if max_self_calls = 1 then ''O(n)''
                 else if max_loop_depth visitor \<ge> 2 then ''O(n^2)''
                 else if max_loop_depth visitor = 1 then ''O(n)''
                 else ''O(1)''))
      else
        (let lowered = lower code;
             has_range_vars =
               list_ex (\<lambda>tok. py_in tok lowered) [''low'', ''high'', ''start'', ''end'', ''left'', ''right''];
             has_bisect_loop = list_ex (\<lambda>cond. py_in cond lowered) bisect_conditions;
             has_mid_calc = (py_in ''mid'' lowered \<and> (py_in ''/ 2'' lowered \<or> py_in ''>> 1'' lowered))
         in if has_range_vars \<and> has_bisect_loop \<and> has_mid_calc then ''O(log n)''
            else
              (let (max_depth, current_depth) = fold depth_step (splitlines code) (0, 0)
               in if max_depth \<ge> 2 then ''O(n^2)''
                  else if max_depth = 1 then ''O(n)''
                  else ''O(1)'')))"

definition estimate_space_complexity :: "parser \<Rightarrow> string \<Rightarrow> string \<Rightarrow> string" where
  "estimate_space_complexity parse code language =
     (let lang = lower language in
      if lang \<notin> {''python'', ''py''} then ''O(1)''
      else case parse code of
        Inl exc \<Rightarrow> ''O(1)''
      | Inr tree \<Rightarrow>
          (let v = sp_visit tree SpaceVisitor_init;
               max_self_calls = max_values (sp_self_calls_per_func v)
           in if max_self_calls \<ge> 1 then ''O(n)''
              else if has_linear_allocation v then ''O(n)''
              else ''O(1)''))"

definition branch_keywords :: "string list" where
  "branch_keywords = [''if '', ''elif '', ''for '', ''while '', ''case '', '' except '', '' and '', '' or '']"

definition estimate_cyclomatic_complexity :: "string \<Rightarrow> int" where
  "estimate_cyclomatic_complexity code =
     (let lowered = lower code
      in fold (\<lambda>kw complexity. complexity + int (count_sub kw lowered)) branch_keywords 1)"

definition estimate_maintainability :: "int \<Rightarrow> string \<Rightarrow> real" where
  "estimate_maintainability cyclomatic code =
     (let line_count = max (length (splitlines code)) 1;
          score = 100 - real_of_int cyclomatic * 1.5 - real line_count * 0.1
      in max 0 (min 100 score))"

definition summarise_security :: "Issue list \<Rightarrow> string" where
  "summarise_security issues =
     (if issues = [] then ''No obvious security issues detected by simple rules.''
      else ''Potential security concerns: '' @
           join '', '' (sort (remdups (map issue_message issues))) @ ''.'')"

definition compute_risk :: "string \<Rightarrow> int \<Rightarrow> Issue list \<Rightarrow> real \<Rightarrow> int \<times> string" where
  "compute_risk big_o cyclomatic_complexity security_issues maintainability =
     (let score0 = (0::int);
          score1 = (if py_in ''n^2'' big_o then score0 + 2 else score0);
          score2 = (if cyclomatic_complexity > 15 then score1 + 2 else score1);
          score3 = (if security_issues \<noteq> [] then score2 + 3 else score2);
          score = (if maintainability < 50 then score3 + 2 else score3);
          level = (if score \<le> 2 then ''Low''
                   else if score \<le> 4 then ''Medium''
                   else if score \<le> 6 then ''High''
                   else ''Critical'')
      in (score, level))"

definition estimate_complexity_trend :: "int \<Rightarrow> string" where
  "estimate_complexity_trend cyclomatic =
     (if cyclomatic \<ge> 15 then ''increasing''
      else if cyclomatic \<ge> 8 then ''slightly_increasing''
      else ''stable'')"


section \<open>The AI collaborator\<close>

text \<open>
  The values a JSON reply is read at: absent or \<open>null\<close>, a boolean, a string.
  \<open>truthy\<close> is Python's truth test and \<open>py_str\<close> is \<open>str()\<close>.
\<close>

datatype jval = JNull | JBool bool | JStr string

type_synonym jdict = "(string \<times> jval) list"

definition dict_get :: "jdict \<Rightarrow> string \<Rightarrow> jval" where
  "dict_get d k = (case map_of d k of None \<Rightarrow> JNull | Some v \<Rightarrow> v)"

definition dict_set :: "string \<Rightarrow> jval \<Rightarrow> jdict \<Rightarrow> jdict" where
  "dict_set k v d = (if k \<in> fst ` set d then map (\<lambda>(k', v'). if k' = k then (k', v) else (k', v')) d
                     else d @ [(k, v)])"

fun truthy :: "jval \<Rightarrow> bool" where
  "truthy JNull = False"
| "truthy (JBool b) = b"
| "truthy (JStr s) = (s \<noteq> [])"

fun py_str :: "jval \<Rightarrow> string" where
  "py_str JNull = ''None''"
| "py_str (JBool b) = (if b then ''True'' else ''False'')"
| "py_str (JStr s) = s"

text \<open>
  The client is whatever \<open>get_ai_client()\<close> returns: a function from the prompt to the
  reply, and one from the two prompts and the schema hint to the JSON object. Every call of
  the pipeline passes \<open>context=None\<close>.
\<close>

record ai_client =
  chat :: "string \<Rightarrow> string"
  openai_json :: "string \<Rightarrow> string \<Rightarrow> jdict \<Rightarrow> jdict"

definition StubAIClient :: ai_client where
  "StubAIClient =
     \<lparr>chat = (\<lambda>prompt. ''(stubbed AI) You said: '' @ take 200 prompt @ ''. Context: '' @ take 120 []),
      openai_json = (\<lambda>system_prompt user_prompt json_schema_hint.
        dict_set ''note'' (JStr ''No AI API key configured; returning stubbed JSON.'')
          (dict_set ''_stubbed'' (JBool True) json_schema_hint))\<rparr>"

text \<open>
  The prompt of \<open>_ai_suggestion_summary\<close>. The source writes "2-3" with an en dash, a
  code point beyond 255; the model writes a hyphen.
\<close>

definition summary_prompt :: "string \<Rightarrow> string" where
  "summary_prompt code =
     ''Summarise the main issues and possible improvements in the following code. '' @
     ''Keep it to 2-3 sentences, plain text only.\<newline>\<newline>'' @ take 4000 code"

definition ai_suggestion_summary :: "ai_client \<Rightarrow> string \<Rightarrow> string" where
  "ai_suggestion_summary client code = chat client (summary_prompt code)"

definition correction_prompt :: "string \<Rightarrow> string \<Rightarrow> string" where
  "correction_prompt language code =
     (let lang = or_str language ''code'' in
      ''Fix syntax and runtime errors in the following '' @ lang @ '' code.\<newline>'' @
      ''Do NOT change business logic.\<newline>'' @
      ''Return ONLY corrected code.\<newline>'' @
      ''No explanation.\<newline>'' @
      ''No markdown.\<newline>\<newline>'' @ take 6000 code)"

definition attempt_auto_correction :: "ai_client \<Rightarrow> string \<Rightarrow> string \<Rightarrow> string" where
  "attempt_auto_correction client language code =
     (let reply = chat client (correction_prompt language code);
          lowered = lower reply
      in if py_in ''stubbed ai'' lowered \<or> strip reply = [] then code
         else strip reply)"

definition detection_prompt :: "string \<Rightarrow> string" where
  "detection_prompt code =
     ''Detect the programming language of the following code.\<newline>'' @
     ''Return ONLY the language name.\<newline>'' @
     ''No explanation.\<newline>\<newline>'' @ take 6000 code"

definition alias_map :: "(string \<times> string) list" where
  "alias_map =
     [(''python'', ''python''), (''py'', ''python''), (''javascript'', ''javascript''),
      (''js'', ''javascript''), (''typescript'', ''typescript''), (''ts'', ''typescript''),
      (''java'', ''java''), (''c++'', ''cpp''), (''cpp'', ''cpp''), (''c'', ''c'')]"

text \<open>
  \<open>lowered.split()[0]\<close> is read on a stripped, non-empty string: it is the run of
  characters before the first white space.
\<close>

definition detect_language_via_ai :: "ai_client \<Rightarrow> string \<Rightarrow> string \<Rightarrow> real \<Rightarrow> string \<times> real" where
  "detect_language_via_ai client code fallback_language fallback_confidence =
     (let reply = chat client (detection_prompt code);
          lowered = strip (lower reply)
      in if py_in ''stubbed ai'' lowered \<or> lowered = []
         then (or_str fallback_language ''generic'', fallback_confidence)
         else
           (let token = takeWhile (\<lambda>c. \<not> is_space c) lowered in
            case map_of alias_map token of
              None \<Rightarrow> (''generic'', 0)
            | Some lang \<Rightarrow> if lang = [] then (''generic'', 0) else (lang, 0.9)))"

record refinement =
  r_algorithm :: string
  r_time_complexity :: string
  r_space_complexity :: string
  r_recommendation :: string
  r_explanation :: string

text \<open>\<open>repr\<close> of a string that holds neither a quote nor a character to escape.\<close>

definition repr_str :: "string \<Rightarrow> string" where
  "repr_str s = [CHR 0x27] @ s @ [CHR 0x27]"

definition refine_user_prompt :: "string \<Rightarrow> string \<times> string \<Rightarrow> string" where
  \<open>refine_user_prompt code = (\<lambda>(time_c, space_c).
     ''Input 1: User-submitted Python code.\<newline>'' @
     ''Input 2: Rule-based analysis JSON from AST estimator:\<newline>'' @
     ''{'' @ repr_str ''time_complexity'' @ '': '' @ repr_str time_c @ '', '' @
       repr_str ''space_complexity'' @ '': '' @ repr_str space_c @ ''}\<newline>\<newline>'' @
     ''Task:\<newline>'' @
     ''- Recognize algorithm type (e.g., Binary Search, Merge Sort, DFS, BFS, DP, or custom).\<newline>'' @
     ''- Correct rule-based time and space complexity estimates.\<newline>'' @
     ''- Suggest optimizations (iterative vs recursive, memoization, loop improvements).\<newline>'' @
     ''- Provide explanation in human-readable language.\<newline>\<newline>'' @
     ''Output Requirements:\<newline>'' @
     ''Return strict JSON only with fields:\<newline>'' @
     ''{ "algorithm": "...", "time_complexity": "O(...)", "space_complexity": "O(...)", '' @
     ''"recommendation": "...", "explanation": "..." }\<newline>'' @
     ''Truncate explanation to 300 characters if too long.\<newline>'' @
     ''Do not include any extra text or commentary.\<newline>\<newline>'' @
     ''CODE:\<newline>'' @ take 6000 code)\<close>

definition or_jval :: "jval \<Rightarrow> jval \<Rightarrow> jval" where
  "or_jval a b = (if truthy a then a else b)"

definition refine_python_complexity_with_gemini ::
  "ai_client \<Rightarrow> string \<Rightarrow> string \<times> string \<Rightarrow> refinement option" where
  "refine_python_complexity_with_gemini client code preliminary =
     (let schema_hint =
            [(''algorithm'', JStr ''Unknown''),
             (''time_complexity'', JStr (fst preliminary)),
             (''space_complexity'', JStr (snd preliminary)),
             (''recommendation'', JStr []),
             (''explanation'', JStr [])];
          system_prompt = ''You are a Python code analysis assistant.'';
          result = openai_json client system_prompt (refine_user_prompt code preliminary) schema_hint
      in if truthy (dict_get result ''_stubbed'') \<or> truthy (dict_get result ''_parse_error'') then None
         else
           (let algorithm = py_str (or_jval (dict_get result ''algorithm'') (JStr ''Unknown''));
                time_c = py_str (or_jval (dict_get result ''time_complexity'')
                                         (dict_get schema_hint ''time_complexity''));
                space_c = py_str (or_jval (dict_get result ''space_complexity'')
                                          (dict_get schema_hint ''space_complexity''));
                recommendation = py_str (or_jval (dict_get result ''recommendation'') (JStr []));
                explanation0 = py_str (or_jval (dict_get result ''explanation'') (JStr []));
                explanation = (if length explanation0 > 300 then take 300 explanation0 else explanation0)
            in Some \<lparr>r_algorithm = algorithm, r_time_complexity = time_c,
                      r_space_complexity = space_c, r_recommendation = recommendation,
                      r_explanation = explanation\<rparr>))"


section \<open>analysis\_engine.py: the pipeline\<close>

text \<open>
  The dictionary \<open>analyze_code\<close> returns. The error payload has no refinement keys; they
  read as \<open>None\<close>, which is what \<open>dict.get\<close> and the response schema give for them.
\<close>

record analysis =
  big_o :: string
  cyclomatic_complexity :: int
  maintainability :: real
  security_summary :: string
  ai_summary :: string
  risk_score :: int
  risk_level :: string
  complexity_trend :: string
  language_detected :: string
  detection_confidence :: real
  was_corrected :: bool
  original_valid :: bool
  corrected_code :: "string option"
  algorithm :: "string option"
  time_complexity :: "string option"
  space_complexity :: "string option"
  recommendation :: "string option"
  explanation :: "string option"
  error :: "string option"
  message :: "string option"

definition syntax_error_response ::
  "string \<Rightarrow> real \<Rightarrow> bool \<Rightarrow> bool \<Rightarrow> string option \<Rightarrow> string \<Rightarrow> analysis" where
  "syntax_error_response language_detected' detection_confidence' was_corrected' original_valid'
       corrected_code' message' =
     \<lparr>big_o = ''N/A'',
      cyclomatic_complexity = 0,
      maintainability = 0,
      security_summary = [],
      ai_summary = [],
      risk_score = 0,
      risk_level = ''Unknown'',
      complexity_trend = ''unknown'',
      language_detected = language_detected',
      detection_confidence = detection_confidence',
      was_corrected = was_corrected',
      original_valid = original_valid',
      corrected_code = corrected_code',
      algorithm = None,
      time_complexity = None,
      space_complexity = None,
      recommendation = None,
      explanation = None,
      error = Some ''SyntaxError'',
      message = Some message'\<rparr>"

text \<open>Step 1 of \<open>analyze_code\<close>: the language the rest of the pipeline works with.\<close>

definition resolve_language :: "ai_client \<Rightarrow> string \<Rightarrow> string option \<Rightarrow> string \<times> real" where
  "resolve_language client code language =
     (let override_language = lower (strip (case language of None \<Rightarrow> [] | Some l \<Rightarrow> l));
          (det_language, det_confidence) = detect_language code;
          detected_language = lower (or_str det_language ''generic'');
          effective_language = or_str override_language (or_str detected_language ''generic'');
          effective_language1 =
            (if effective_language = ''python'' \<and> py_in ''#include'' code then ''c''
             else effective_language)
      in if override_language = [] \<and> det_confidence < 0.5
         then detect_language_via_ai client code detected_language det_confidence
         else (effective_language1, det_confidence))"

text \<open>
  Steps 5 and 6: the analysis of the final code. The result of
  \<open>complexity_service.analyze_complexity\<close> is computed by the source and never read.
\<close>

definition run_analysis ::
  "parser \<Rightarrow> ai_client \<Rightarrow> string \<Rightarrow> string \<Rightarrow> real \<Rightarrow> bool \<Rightarrow> bool \<Rightarrow> analysis" where
  "run_analysis parse client final_code effective_language detection_confidence' was_corrected'
       original_valid' =
     (let security_findings = analyze_security final_code;
          big_o0 = estimate_big_o parse final_code effective_language;
          space_o = estimate_space_complexity parse final_code effective_language;
          cyclomatic = estimate_cyclomatic_complexity final_code;
          maintainability' = estimate_maintainability cyclomatic final_code;
          security_summary' = summarise_security security_findings;
          ai_summary' = ai_suggestion_summary client final_code;
          refined =
            (if effective_language \<in> {''python'', ''py''}
             then refine_python_complexity_with_gemini client final_code (big_o0, space_o)
             else None);
          big_o' = (case refined of None \<Rightarrow> big_o0 | Some r \<Rightarrow> or_str (r_time_complexity r) big_o0);
          (risk_score', risk_level') = compute_risk big_o' cyclomatic security_findings maintainability';
          complexity_trend' = estimate_complexity_trend cyclomatic
      in \<lparr>big_o = big_o',
          cyclomatic_complexity = cyclomatic,
          maintainability = maintainability',
          security_summary = security_summary',
          ai_summary = ai_summary',
          risk_score = risk_score',
          risk_level = risk_level',
          complexity_trend = complexity_trend',
          language_detected = effective_language,
          detection_confidence = detection_confidence',
          was_corrected = was_corrected',
          original_valid = original_valid',
          corrected_code = (if was_corrected' then Some final_code else None),
          algorithm = (case refined of None \<Rightarrow> None | Some r \<Rightarrow> Some (r_algorithm r)),
          time_complexity = (case refined of None \<Rightarrow> Some big_o' | Some r \<Rightarrow> Some (r_time_complexity r)),
          space_complexity = (case refined of None \<Rightarrow> Some space_o | Some r \<Rightarrow> Some (r_space_complexity r)),
          recommendation = (case refined of None \<Rightarrow> None | Some r \<Rightarrow> Some (r_recommendation r)),
          explanation = (case refined of None \<Rightarrow> None | Some r \<Rightarrow> Some (r_explanation r)),
          error = None,
          message = None\<rparr>)"

text \<open>\<open>str(validation.get("error") or "Code is invalid even after correction.")\<close>.\<close>

definition error_message :: "ValidationResult \<Rightarrow> string" where
  "error_message validation =
     (case verror validation of
        None \<Rightarrow> ''Code is invalid even after correction.''
      | Some e \<Rightarrow> or_str e ''Code is invalid even after correction.'')"

definition analyze_code :: "parser \<Rightarrow> ai_client \<Rightarrow> string \<Rightarrow> string option \<Rightarrow> analysis" where
  "analyze_code parse client code language =
     (let (effective_language, detection_confidence') = resolve_language client code language;
          validation = validate_code parse effective_language code;
          original_valid' = valid validation
      in if \<not> original_valid' then
           (let corrected_code' = attempt_auto_correction client effective_language code;
                revalidation = validate_code parse effective_language corrected_code'
            in if valid revalidation
               then run_analysis parse client corrected_code' effective_language
                      detection_confidence' True original_valid'
               else syntax_error_response effective_language detection_confidence' False False None
                      (error_message validation))
         else run_analysis parse client code effective_language detection_confidence' False
                original_valid')"


section \<open>compare.py\<close>

record CodeDiff =
  added :: "string list"
  removed :: "string list"
  changed :: "string list"

record CodeCompareResponse =
  diff :: CodeDiff
  diff_risk_score :: real
  summary :: string

definition compare_versions :: "string \<Rightarrow> string \<Rightarrow> CodeCompareResponse" where
  "compare_versions original_code modified_code =
     (let original_lines = splitlines original_code;
          modified_lines = splitlines modified_code;
          added' = filter (\<lambda>line. line \<notin> set original_lines) modified_lines;
          removed' = filter (\<lambda>line. line \<notin> set modified_lines) original_lines;
          changed' = []
      in \<lparr>diff = \<lparr>added = added', removed = removed', changed = changed'\<rparr>,
          diff_risk_score = real (length added' + length removed'),
          summary = ''Basic diff calculated. Replace with smarter analysis as needed.''\<rparr>)"

definition big_o_rank :: "string \<Rightarrow> int" where
  "big_o_rank big_o' =
     (let s = lower big_o' in
      if py_in ''n^2'' s then 3
      else if py_in ''n)'' s \<or> py_in ''o(n'' s then 2
      else if py_in ''1'' s then 1
      else 4)"

definition pick_better :: "int \<Rightarrow> int \<Rightarrow> int \<Rightarrow> int \<Rightarrow> int \<Rightarrow> int \<Rightarrow> string" where
  "pick_better a_risk b_risk a_cyclomatic b_cyclomatic a_big_o_rank b_big_o_rank =
     (if a_risk \<noteq> b_risk then (if a_risk < b_risk then ''A'' else ''B'')
      else if a_cyclomatic \<noteq> b_cyclomatic then (if a_cyclomatic < b_cyclomatic then ''A'' else ''B'')
      else if a_big_o_rank \<noteq> b_big_o_rank then (if a_big_o_rank < b_big_o_rank then ''A'' else ''B'')
      else ''A'')"

text \<open>
  The notes are kept as the values their f-strings interpolate; the rendering, which uses
  an arrow beyond code point 255, is left out, and the non-breaking hyphen of the metric name
  \<open>Big-O\<close> is written as a hyphen.
\<close>

datatype improvement_note =
    NoChangeText string string
  | NoChangeInt string int
  | MetricChange string string string string
  | DeltaChange string int int string string string

definition notes_for_metric :: "string \<Rightarrow> string \<Rightarrow> string \<Rightarrow> string \<Rightarrow> improvement_note list" where
  "notes_for_metric name a_val b_val better =
     (if a_val = b_val then [NoChangeText name a_val]
      else [MetricChange name a_val b_val better])"

definition notes_for_delta :: "string \<Rightarrow> int \<Rightarrow> int \<Rightarrow> string \<Rightarrow> bool \<Rightarrow> improvement_note list" where
  "notes_for_delta name a_val b_val better lower_is_better =
     (if a_val = b_val then [NoChangeInt name a_val]
      else
        (let direction = (if b_val < a_val then ''decreased'' else ''increased'');
             desirability =
               (if lower_is_better then (if b_val < a_val then ''good'' else ''worse'')
                else (if b_val > a_val then ''good'' else ''worse''))
         in [DeltaChange name a_val b_val direction desirability better]))"

record side_metrics =
  m_big_o :: string
  m_cyclomatic_complexity :: int
  m_maintainability :: real
  m_risk_score :: int
  m_risk_level :: string

record metrics_comparison =
  side_A :: side_metrics
  side_B :: side_metrics
  delta_cyclomatic_complexity :: int
  delta_risk_score :: int

datatype compare_result =
    CompareError string string
  | Comparison string "improvement_note list" metrics_comparison

definition side_of :: "analysis \<Rightarrow> side_metrics" where
  "side_of a =
     \<lparr>m_big_o = big_o a, m_cyclomatic_complexity = cyclomatic_complexity a,
      m_maintainability = maintainability a, m_risk_score = risk_score a,
      m_risk_level = risk_level a\<rparr>"

text \<open>The body of \<open>compare_codes\<close> after the two analyses have returned.\<close>

definition compare_analyses :: "analysis \<Rightarrow> analysis \<Rightarrow> compare_result" where
  "compare_analyses a b =
     (if error a = Some ''CompilationError'' \<or> error b = Some ''CompilationError'' then
        (let which = (if error a = Some ''CompilationError'' then [''A''] else []) @
                     (if error b = Some ''CompilationError'' then [''B''] else [])
         in CompareError ''CompilationError''
              (''Code is invalid even after correction for versions: '' @ join '', '' which @ ''.''))
      else
        (let a_big_o_rank = big_o_rank (big_o a);
             b_big_o_rank = big_o_rank (big_o b);
             a_cyclomatic = cyclomatic_complexity a;
             b_cyclomatic = cyclomatic_complexity b;
             a_risk = risk_score a;
             b_risk = risk_score b;
             better_version = pick_better a_risk b_risk a_cyclomatic b_cyclomatic a_big_o_rank b_big_o_rank;
             notes = notes_for_metric ''Big-O'' (big_o a) (big_o b) better_version @
                     notes_for_delta ''Cyclomatic complexity'' a_cyclomatic b_cyclomatic better_version True @
                     notes_for_delta ''Risk score'' a_risk b_risk better_version True;
             metrics = \<lparr>side_A = side_of a, side_B = side_of b,
                        delta_cyclomatic_complexity = b_cyclomatic - a_cyclomatic,
                        delta_risk_score = b_risk - a_risk\<rparr>
         in Comparison better_version notes metrics))"

definition compare_codes :: "parser \<Rightarrow> ai_client \<Rightarrow> string \<Rightarrow> string \<Rightarrow> string option \<Rightarrow> compare_result" where
  "compare_codes parse client code_a code_b language =
     (let a = analyze_code parse client code_a language;
          b = analyze_code parse client code_b language
      in compare_analyses a b)"


section \<open>Collaborators and accessors used in the statements\<close>

text \<open>A parser that rejects every text, and a client that gives the same reply to every prompt.\<close>

definition rejecting_parser :: parser where
  "rejecting_parser code = Inl ''invalid syntax''"

definition constant_client :: "string \<Rightarrow> ai_client" where
  "constant_client reply =
     \<lparr>chat = (\<lambda>prompt. reply), openai_json = (\<lambda>system_prompt user_prompt hint. hint)\<rparr>"

text \<open>
  \<open>result.get("better_version")\<close> and the two entries of
  \<open>result["metrics_comparison"]["delta"]\<close>, absent from the error result.
\<close>

definition verdict :: "compare_result \<Rightarrow> string option" where
  "verdict r = (case r of CompareError e m \<Rightarrow> None | Comparison better notes metrics \<Rightarrow> Some better)"

definition deltas :: "compare_result \<Rightarrow> (int \<times> int) option" where
  "deltas r =
     (case r of
        CompareError e m \<Rightarrow> None
      | Comparison better notes metrics \<Rightarrow>
          Some (delta_cyclomatic_complexity metrics, delta_risk_score metrics))"




















text \<open>
  What the specification means by balanced brackets, as a grammar: a text is well bracketed
  when its round, curly and square brackets pair up and nest, other characters standing
  anywhere. \<open>closes stack w\<close> says that \<open>w\<close> closes the open brackets of \<open>stack\<close>, innermost
  first, and is well bracketed in between.
\<close>

inductive well_bracketed :: "string \<Rightarrow> bool" where
  empty: "well_bracketed []"
| plain: "closing c = None \<Longrightarrow> c \<notin> opening_brackets \<Longrightarrow> well_bracketed w \<Longrightarrow> well_bracketed (c # w)"
| pair: "closing c = Some opener \<Longrightarrow> well_bracketed u \<Longrightarrow> well_bracketed v \<Longrightarrow>
     well_bracketed (opener # u @ c # v)"

inductive closes :: "char list \<Rightarrow> string \<Rightarrow> bool" where
  closed: "well_bracketed w \<Longrightarrow> closes [] w"
| closer: "well_bracketed u \<Longrightarrow> closing c = Some opener \<Longrightarrow> closes stack v \<Longrightarrow>
     closes (opener # stack) (u @ c # v)"


section \<open>Facts about the string functions and the estimators\<close>

lemma count_sub_single: "count_sub [c] s = count_list s c"
proof (induction s)
  case Nil
  show ?case by (subst count_sub.simps) simp
next
  case (Cons x xs)
  show ?case
    by (subst count_sub.simps) (simp add: Cons.IH)
qed

lemma balanced_quotes_even:
  "balanced_quotes code \<longleftrightarrow>
     even (count_list code (CHR 0x27)) \<and> even (count_list code (CHR 0x22)) \<and>
     even (count_list code (CHR 0x60))"
  by (simp add: balanced_quotes_def Let_def count_sub_single even_iff_mod_2_eq_zero)




lemma count_sub_nonneg_fold:
  "c \<le> fold (\<lambda>kw complexity. complexity + int (count_sub kw s)) kws c"
proof (induction kws arbitrary: c)
  case Nil
  then show ?case by simp
next
  case (Cons k ks)
  have "c \<le> c + int (count_sub k s)" by simp
  also have "\<dots> \<le> fold (\<lambda>kw complexity. complexity + int (count_sub kw s)) ks (c + int (count_sub k s))"
    by (rule Cons.IH)
  finally show ?case by simp
qed

lemma cyclomatic_ge_1: "1 \<le> estimate_cyclomatic_complexity code"
  unfolding estimate_cyclomatic_complexity_def Let_def by (rule count_sub_nonneg_fold)

lemma maintainability_bound:
  assumes "1 \<le> c"
  shows "estimate_maintainability c code \<le> 98.4"
proof -
  let ?n = "max (length (splitlines code)) 1"
  have n: "1 \<le> real ?n" by simp
  have c: "1 \<le> real_of_int c" using assms by simp
  define score where "score = 100 - real_of_int c * 1.5 - real ?n * 0.1"
  have "score \<le> 98.4"
    unfolding score_def using n c by linarith
  then have "min 100 score \<le> 98.4"
    by (rule min.coboundedI2)
  moreover have "(0::real) \<le> 98.4" by simp
  ultimately have "max 0 (min 100 score) \<le> 98.4"
    by (simp only: max.bounded_iff)
  then show ?thesis
    unfolding estimate_maintainability_def Let_def score_def .
qed


section \<open>The bracket stack accepts the well-bracketed texts\<close>

lemma closing_opener: "closing c = Some opener \<Longrightarrow> opener \<in> opening_brackets \<and> c \<notin> opening_brackets"
  by (auto simp: closing_def opening_brackets_def split: if_splits)

lemma opening_not_closing: "c \<in> opening_brackets \<Longrightarrow> closing c = None"
  by (auto simp: closing_def opening_brackets_def)

lemma brackets_loop_skip:
  "well_bracketed u \<Longrightarrow> brackets_loop stack (u @ v) = brackets_loop stack v"
proof (induction u arbitrary: stack v rule: well_bracketed.induct)
  case empty
  show ?case by simp
next
  case (plain c w)
  then show ?case by simp
next
  case (pair c opener u w)
  from closing_opener [OF pair.hyps(1)]
  have o: "opener \<in> opening_brackets" and c: "c \<notin> opening_brackets" by simp_all
  have "brackets_loop stack ((opener # u @ c # w) @ v) = brackets_loop (opener # stack) (u @ c # (w @ v))"
    using o by simp
  also have "\<dots> = brackets_loop (opener # stack) (c # (w @ v))"
    by (rule pair.IH(1))
  also have "\<dots> = brackets_loop stack (w @ v)"
    using c pair.hyps(1) by simp
  also have "\<dots> = brackets_loop stack v"
    by (rule pair.IH(2))
  finally show ?case .
qed

lemma closes_imp_loop: "closes stack w \<Longrightarrow> brackets_loop stack w"
proof (induction rule: closes.induct)
  case (closed w)
  from brackets_loop_skip [OF closed, of "[]" "[]"] show ?case by simp
next
  case (closer u c opener stack v)
  from closing_opener [OF closer.hyps(2)] have c: "c \<notin> opening_brackets" by simp
  have "brackets_loop (opener # stack) (u @ c # v) = brackets_loop (opener # stack) (c # v)"
    by (rule brackets_loop_skip [OF closer.hyps(1)])
  also have "\<dots> = brackets_loop stack v"
    using c closer.hyps(2) by simp
  finally show ?case using closer.IH by simp
qed

lemma well_bracketed_append:
  "well_bracketed u \<Longrightarrow> well_bracketed v \<Longrightarrow> well_bracketed (u @ v)"
proof (induction u rule: well_bracketed.induct)
  case empty
  then show ?case by simp
next
  case (plain c w)
  then show ?case by (simp add: well_bracketed.plain)
next
  case (pair c opener u w)
  have "well_bracketed (opener # u @ c # (w @ v))"
    by (rule well_bracketed.pair [OF pair.hyps(1) pair.hyps(2) pair.IH(2) [OF pair.prems]])
  then show ?case by simp
qed

lemma closes_prepend: "closes stack v \<Longrightarrow> well_bracketed d \<Longrightarrow> closes stack (d @ v)"
proof (induction rule: closes.induct)
  case (closed w)
  then show ?case by (simp add: closes.closed well_bracketed_append)
next
  case (closer u c opener stack v)
  have "closes (opener # stack) ((d @ u) @ c # v)"
    by (rule closes.closer [OF well_bracketed_append [OF closer.prems closer.hyps(1)] closer.hyps(2) closer.hyps(3)])
  then show ?case by simp
qed

lemma loop_imp_closes: "brackets_loop stack w \<Longrightarrow> closes stack w"
proof (induction w arbitrary: stack)
  case Nil
  then show ?case by (simp add: closes.closed well_bracketed.empty)
next
  case (Cons c w)
  show ?case
  proof (cases "c \<in> opening_brackets")
    case True
    with Cons.prems have "brackets_loop (c # stack) w" by simp
    then have "closes (c # stack) w" by (rule Cons.IH)
    then obtain u c' v where w: "w = u @ c' # v" and u: "well_bracketed u"
      and c': "closing c' = Some c" and v: "closes stack v"
      by (cases rule: closes.cases) auto
    have "well_bracketed (c # u @ c' # [])"
      by (rule well_bracketed.pair [OF c' u well_bracketed.empty])
    from closes_prepend [OF v this] show ?thesis by (simp add: w)
  next
    case False
    show ?thesis
    proof (cases "closing c")
      case None
      with False Cons.prems have "brackets_loop stack w" by simp
      then have "closes stack w" by (rule Cons.IH)
      moreover have "well_bracketed [c]"
        by (rule well_bracketed.plain [OF None False well_bracketed.empty])
      ultimately have "closes stack ([c] @ w)" by (rule closes_prepend)
      then show ?thesis by simp
    next
      case (Some opener)
      with False Cons.prems obtain below where st: "stack = opener # below"
        and l: "brackets_loop below w"
        by (cases stack) (auto split: if_splits)
      from l have "closes below w" by (rule Cons.IH)
      from closes.closer [OF well_bracketed.empty Some this] show ?thesis by (simp add: st)
    qed
  qed
qed

lemma balanced_brackets_iff: "balanced_brackets code \<longleftrightarrow> well_bracketed code"
proof
  assume "balanced_brackets code"
  then have "closes [] code" unfolding balanced_brackets_def by (rule loop_imp_closes)
  then show "well_bracketed code" by (cases rule: closes.cases) auto
next
  assume "well_bracketed code"
  then have "closes [] code" by (rule closes.closed)
  then show "balanced_brackets code" unfolding balanced_brackets_def by (rule closes_imp_loop)
qed


lemma invalid_has_error:
  fixes parse :: "string \<Rightarrow> string + 'ast"
  assumes "\<not> valid (validate_code parse language code)"
  shows "\<exists>e. verror (validate_code parse language code) = Some e"
proof -
  define ok where "ok r \<longleftrightarrow> valid r \<or> (\<exists>e. verror r = Some e)" for r :: ValidationResult
  have ok_if: "ok (if c then a else b)" if "ok a" "ok b" for c a b
    using that by simp
  have ok_invalid: "ok (invalid e)" for e
    by (simp add: ok_def invalid_def)
  have ok_valid: "ok is_valid"
    by (simp add: ok_def is_valid_def)
  have ok_case: "ok (case parse code of Inl exc \<Rightarrow> invalid exc | Inr tree \<Rightarrow> is_valid)"
    by (cases "parse code") (simp_all add: ok_invalid ok_valid)
  have "ok (validate_code parse language code)"
    unfolding validate_code_def Let_def
    by (intro ok_if ok_invalid ok_valid ok_case)
  with assms show ?thesis
    by (simp add: ok_def)
qed


section \<open>The visitor computes the summary of the tree\<close>






















section \<open>The three ways through \<open>analyze_code\<close>\<close>

lemma analyze_code_invalid:
  assumes "resolve_language client code language = (eff, conf)"
    and "\<not> valid (validate_code parse eff code)"
    and "\<not> valid (validate_code parse eff (attempt_auto_correction client eff code))"
  shows "analyze_code parse client code language =
     syntax_error_response eff conf False False None (error_message (validate_code parse eff code))"
  using assms by (simp add: analyze_code_def Let_def)

lemma analyze_code_corrected:
  assumes "resolve_language client code language = (eff, conf)"
    and "\<not> valid (validate_code parse eff code)"
    and "valid (validate_code parse eff (attempt_auto_correction client eff code))"
  shows "analyze_code parse client code language =
     run_analysis parse client (attempt_auto_correction client eff code) eff conf True False"
  using assms by (simp add: analyze_code_def Let_def)

lemma analyze_code_valid:
  assumes "resolve_language client code language = (eff, conf)"
    and "valid (validate_code parse eff code)"
  shows "analyze_code parse client code language = run_analysis parse client code eff conf False True"
  using assms by (simp add: analyze_code_def Let_def)

lemma run_analysis_fields:
  "error (run_analysis parse client final eff conf wc ov) = None"
  "cyclomatic_complexity (run_analysis parse client final eff conf wc ov) =
     estimate_cyclomatic_complexity final"
  "maintainability (run_analysis parse client final eff conf wc ov) =
     estimate_maintainability (estimate_cyclomatic_complexity final) final"
  by (simp_all add: run_analysis_def Let_def split: prod.splits)

lemma syntax_error_response_fields:
  "big_o (syntax_error_response l c w ov cc m) = ''N/A''"
  "cyclomatic_complexity (syntax_error_response l c w ov cc m) = 0"
  "maintainability (syntax_error_response l c w ov cc m) = 0"
  "risk_score (syntax_error_response l c w ov cc m) = 0"
  "risk_level (syntax_error_response l c w ov cc m) = ''Unknown''"
  "error (syntax_error_response l c w ov cc m) = Some ''SyntaxError''"
  "message (syntax_error_response l c w ov cc m) = Some m"
  by (simp_all add: syntax_error_response_def)

lemma analyze_code_error_cases:
  "error (analyze_code parse client code language) = None \<or>
   error (analyze_code parse client code language) = Some ''SyntaxError''"
proof -
  obtain eff conf where r: "resolve_language client code language = (eff, conf)"
    by (cases "resolve_language client code language")
  show ?thesis
  proof (cases "valid (validate_code parse eff code)")
    case True
    show ?thesis
      unfolding analyze_code_valid [OF r True] run_analysis_fields by (rule disjI1) (rule refl)
  next
    case False
    show ?thesis
    proof (cases "valid (validate_code parse eff (attempt_auto_correction client eff code))")
      case True
      show ?thesis
        unfolding analyze_code_corrected [OF r False True] run_analysis_fields
        by (rule disjI1) (rule refl)
    next
      case F2: False
      show ?thesis
        unfolding analyze_code_invalid [OF r False F2] syntax_error_response_fields
        by (rule disjI2) (rule refl)
    qed
  qed
qed


section \<open>The comparison does not see a failed side\<close>

text \<open>
  Claim C1. When a side's analysis ends in the invalid-after-correction outcome,
  \<open>compare_codes\<close> should return one error result naming the failed sides and no verdict,
  notes or metrics table. The analysis tags that outcome \<open>SyntaxError\<close>, the comparison tests
  for \<open>CompilationError\<close>: with the stub client, the empty text as version A and \<open>x = 1\<close> as
  version B, side A is the error payload and the comparison still returns a verdict
  (for the failed side), three notes and the metrics table.
\<close>

theorem compare_codes_keeps_failed_side:
  "error (analyze_code rejecting_parser StubAIClient [] (Some ''generic'')) = Some ''SyntaxError''
   \<and> compare_codes rejecting_parser StubAIClient [] ''x = 1'' (Some ''generic'') =
     Comparison ''A''
       [MetricChange ''Big-O'' ''N/A'' ''O(1)'' ''A'',
        DeltaChange ''Cyclomatic complexity'' 0 1 ''increased'' ''worse'' ''A'',
        NoChangeInt ''Risk score'' 0]
       \<lparr>side_A = \<lparr>m_big_o = ''N/A'', m_cyclomatic_complexity = 0, m_maintainability = 0,
                   m_risk_score = 0, m_risk_level = ''Unknown''\<rparr>,
        side_B = \<lparr>m_big_o = ''O(1)'', m_cyclomatic_complexity = 1, m_maintainability = 98.4,
                   m_risk_score = 0, m_risk_level = ''Low''\<rparr>,
        delta_cyclomatic_complexity = 1, delta_risk_score = 0\<rparr>"
  by code_simp

text \<open>No input reaches the error branch of the comparison.\<close>

lemma compare_codes_never_error:
  "compare_codes parse client code_a code_b language \<noteq> CompareError kind msg"
proof -
  have a: "error (analyze_code parse client code_a language) \<noteq> Some ''CompilationError''"
    using analyze_code_error_cases [of parse client code_a language] by auto
  have b: "error (analyze_code parse client code_b language) \<noteq> Some ''CompilationError''"
    using analyze_code_error_cases [of parse client code_b language] by auto
  show ?thesis
    unfolding compare_codes_def compare_analyses_def Let_def using a b by simp
qed


section \<open>The risk score\<close>

text \<open>
  Claim C6, as the specification states it, has the score always in \<open>{0,2,3,4,5,7,9}\<close>.
  A quadratic label, a cyclomatic complexity of 16, no finding and a maintainability of 40
  give 6.
\<close>

theorem compute_risk_six_counterexample:
  "fst (compute_risk ''O(n^2)'' 16 [] 40) = 6 \<and>
   fst (compute_risk ''O(n^2)'' 16 [] 40) \<notin> {0, 2, 3, 4, 5, 7, 9}"
  by code_simp

text \<open>
  Claim C6, amended. For every label, cyclomatic complexity, finding list and
  maintainability, the score is 2 if the label contains \<open>n^2\<close>, plus 2 if the cyclomatic
  complexity exceeds 15, plus 3 if there is a finding, plus 2 if the maintainability is
  below 50; it is one of 0, 2, 3, 4, 5, 6, 7, 9; the level is Low up to 2, Medium up to 4,
  High up to 6 and Critical from 7.
\<close>

theorem compute_risk_score_and_level:
  "fst (compute_risk big_o' cyclomatic issues m) =
      (if py_in ''n^2'' big_o' then 2 else 0) + (if cyclomatic > 15 then 2 else 0) +
      (if issues \<noteq> [] then 3 else 0) + (if m < 50 then 2 else 0)
   \<and> fst (compute_risk big_o' cyclomatic issues m) \<in> {0, 2, 3, 4, 5, 6, 7, 9}
   \<and> snd (compute_risk big_o' cyclomatic issues m) =
      (if fst (compute_risk big_o' cyclomatic issues m) \<le> 2 then ''Low''
       else if fst (compute_risk big_o' cyclomatic issues m) \<le> 4 then ''Medium''
       else if fst (compute_risk big_o' cyclomatic issues m) \<le> 6 then ''High''
       else ''Critical'')"
  by (simp add: compute_risk_def Let_def)

theorem compute_risk_score_and_level_witness:
  "fst (compute_risk ''O(n)'' 20 [Issue ''security'' ''Suspicious pattern detected: eval('' None (Some ''warning'')] 10) = 7
   \<and> snd (compute_risk ''O(n)'' 20 [Issue ''security'' ''Suspicious pattern detected: eval('' None (Some ''warning'')] 10) = ''Critical''"
proof -
  note t = compute_risk_score_and_level [of "''O(n)''" 20
      "[Issue ''security'' ''Suspicious pattern detected: eval('' None (Some ''warning'')]" 10]
  have p: "\<not> py_in ''n^2'' ''O(n)''" by code_simp
  have s: "fst (compute_risk ''O(n)'' 20 [Issue ''security'' ''Suspicious pattern detected: eval('' None (Some ''warning'')] 10) = 7"
    using t [THEN conjunct1] p by simp
  have l: "snd (compute_risk ''O(n)'' 20 [Issue ''security'' ''Suspicious pattern detected: eval('' None (Some ''warning'')] 10) = ''Critical''"
    using t [THEN conjunct2, THEN conjunct2] unfolding s by simp
  show ?thesis by (rule conjI [OF s l])
qed


section \<open>The line-based diff\<close>

text \<open>
  Claim C9, as the specification states it, has the two lists reflect exactly the line-level
  differences of inputs that differ only in added blank lines. Version A with the lines
  \<open>a\<close>, blank, \<open>b\<close> and version B with one more blank line differ in one added line, and
  both lists are empty: a blank line is a line of A already.
\<close>

theorem added_blank_line_counterexample:
  "splitlines ''a\<newline>\<newline>b'' = [''a'', [], ''b'']
   \<and> splitlines ''a\<newline>\<newline>\<newline>b'' = [''a'', [], [], ''b'']
   \<and> added (diff (compare_versions ''a\<newline>\<newline>b'' ''a\<newline>\<newline>\<newline>b'')) = []
   \<and> removed (diff (compare_versions ''a\<newline>\<newline>b'' ''a\<newline>\<newline>\<newline>b'')) = []"
  by code_simp

text \<open>
  Claim C9, amended. For every pair of versions, the added list of \<open>compare_versions\<close> is
  the lines of version B that occur nowhere in version A, in B's order and with B's
  repetitions; the removed list is the lines of A that occur nowhere in B; the changed list
  is empty. When B is A with further lines that are all blank or already lines of A, nothing
  is removed and the added list is the blank lines of B that are not lines of A: an added
  blank line is reported only when A holds no line equal to it.
\<close>

theorem compare_versions_diff:
  "added (diff (compare_versions A B)) = filter (\<lambda>l. l \<notin> set (splitlines A)) (splitlines B)
   \<and> removed (diff (compare_versions A B)) = filter (\<lambda>l. l \<notin> set (splitlines B)) (splitlines A)
   \<and> changed (diff (compare_versions A B)) = []
   \<and> set (added (diff (compare_versions A B))) = set (splitlines B) - set (splitlines A)
   \<and> set (removed (diff (compare_versions A B))) = set (splitlines A) - set (splitlines B)
   \<and> (subseq (splitlines A) (splitlines B) \<and>
       (\<forall>l \<in> set (splitlines B). l \<in> set (splitlines A) \<or> strip l = []) \<longrightarrow>
        removed (diff (compare_versions A B)) = [] \<and>
        added (diff (compare_versions A B)) =
          filter (\<lambda>l. strip l = [] \<and> l \<notin> set (splitlines A)) (splitlines B) \<and>
        (\<forall>l \<in> set (added (diff (compare_versions A B))). strip l = []))"
proof -
  have 1: "added (diff (compare_versions A B)) = filter (\<lambda>l. l \<notin> set (splitlines A)) (splitlines B)"
    by (simp add: compare_versions_def Let_def)
  have 2: "removed (diff (compare_versions A B)) = filter (\<lambda>l. l \<notin> set (splitlines B)) (splitlines A)"
    by (simp add: compare_versions_def Let_def)
  have 3: "changed (diff (compare_versions A B)) = []"
    by (simp add: compare_versions_def Let_def)
  have 4: "set (added (diff (compare_versions A B))) = set (splitlines B) - set (splitlines A)"
    unfolding 1 by auto
  have 5: "set (removed (diff (compare_versions A B))) = set (splitlines A) - set (splitlines B)"
    unfolding 2 by auto
  have 6: "removed (diff (compare_versions A B)) = [] \<and>
        added (diff (compare_versions A B)) =
          filter (\<lambda>l. strip l = [] \<and> l \<notin> set (splitlines A)) (splitlines B) \<and>
        (\<forall>l \<in> set (added (diff (compare_versions A B))). strip l = [])"
    if h1: "subseq (splitlines A) (splitlines B)"
      and h2: "\<forall>l \<in> set (splitlines B). l \<in> set (splitlines A) \<or> strip l = []"
  proof -
    have sub: "set (splitlines A) \<subseteq> set (splitlines B)"
      using h1 by (auto elim: list_emb_set)
    have "removed (diff (compare_versions A B)) = []"
      unfolding 2 using sub by (auto simp: filter_empty_conv)
    moreover have "added (diff (compare_versions A B)) =
          filter (\<lambda>l. strip l = [] \<and> l \<notin> set (splitlines A)) (splitlines B)"
      unfolding 1 using h2 by (intro filter_cong refl) auto
    moreover have "\<forall>l \<in> set (added (diff (compare_versions A B))). strip l = []"
      unfolding 1 using h2 by auto
    ultimately show ?thesis by simp
  qed
  from 1 2 3 4 5 6 show ?thesis by blast
qed

text \<open>
  Version B is version A with an empty line inside and a line of one space at the end; then
  a version A that holds an empty line already, and B with one more.
\<close>

theorem compare_versions_diff_witness:
  "subseq (splitlines ''a\<newline>b'') (splitlines ''a\<newline>\<newline>b\<newline> '') \<and>
   added (diff (compare_versions ''a\<newline>b'' ''a\<newline>\<newline>b\<newline> '')) = [[], '' ''] \<and>
   removed (diff (compare_versions ''a\<newline>b'' ''a\<newline>\<newline>b\<newline> '')) = [] \<and>
   subseq (splitlines ''a\<newline>\<newline>b'') (splitlines ''a\<newline>\<newline>\<newline>b'') \<and>
   added (diff (compare_versions ''a\<newline>\<newline>b'' ''a\<newline>\<newline>\<newline>b'')) = [] \<and>
   removed (diff (compare_versions ''a\<newline>\<newline>b'' ''a\<newline>\<newline>\<newline>b'')) = []"
proof -
  have h1: "subseq (splitlines ''a\<newline>b'') (splitlines ''a\<newline>\<newline>b\<newline> '')"
    by code_simp
  have h2: "\<forall>l \<in> set (splitlines ''a\<newline>\<newline>b\<newline> ''). l \<in> set (splitlines ''a\<newline>b'') \<or> strip l = []"
    by code_simp
  have v: "filter (\<lambda>l. l \<notin> set (splitlines ''a\<newline>b'')) (splitlines ''a\<newline>\<newline>b\<newline> '') = [[], '' '']"
    by code_simp
  note t = compare_versions_diff [of "''a\<newline>b''" "''a\<newline>\<newline>b\<newline> ''"]
  note imp = t [THEN conjunct2, THEN conjunct2, THEN conjunct2, THEN conjunct2, THEN conjunct2]
  have a: "added (diff (compare_versions ''a\<newline>b'' ''a\<newline>\<newline>b\<newline> '')) = [[], '' '']"
    by (rule trans [OF t [THEN conjunct1] v])
  have r: "removed (diff (compare_versions ''a\<newline>b'' ''a\<newline>\<newline>b\<newline> '')) = []"
    by (rule conjunct1 [OF mp [OF imp conjI [OF h1 h2]]])
  have g1: "subseq (splitlines ''a\<newline>\<newline>b'') (splitlines ''a\<newline>\<newline>\<newline>b'')"
    by code_simp
  have g2: "\<forall>l \<in> set (splitlines ''a\<newline>\<newline>\<newline>b''). l \<in> set (splitlines ''a\<newline>\<newline>b'') \<or> strip l = []"
    by code_simp
  have w: "filter (\<lambda>l. strip l = [] \<and> l \<notin> set (splitlines ''a\<newline>\<newline>b''))
      (splitlines ''a\<newline>\<newline>\<newline>b'') = []"
    by code_simp
  note u = compare_versions_diff [of "''a\<newline>\<newline>b''" "''a\<newline>\<newline>\<newline>b''"]
  note c = mp [OF u [THEN conjunct2, THEN conjunct2, THEN conjunct2, THEN conjunct2, THEN conjunct2]
      conjI [OF g1 g2]]
  have r': "removed (diff (compare_versions ''a\<newline>\<newline>b'' ''a\<newline>\<newline>\<newline>b'')) = []"
    by (rule c [THEN conjunct1])
  have a': "added (diff (compare_versions ''a\<newline>\<newline>b'' ''a\<newline>\<newline>\<newline>b'')) = []"
    by (rule trans [OF c [THEN conjunct2, THEN conjunct1] w])
  show ?thesis
    by (rule conjI [OF h1 conjI [OF a conjI [OF r conjI [OF g1 conjI [OF a' r']]]]])
qed


section \<open>The ceiling of the maintainability score\<close>

text \<open>
  Claim C10. The cyclomatic complexity is at least 1 and the line count is taken as at
  least 1, so the maintainability of every analysed text is at most 98.4 (exact
  arithmetic), and so is the maintainability field of every result of the pipeline.
\<close>

theorem maintainability_at_most_98_4:
  "1 \<le> estimate_cyclomatic_complexity code
   \<and> estimate_maintainability (estimate_cyclomatic_complexity code) code \<le> 98.4
   \<and> maintainability (analyze_code parse client code language) \<le> 98.4"
proof -
  have b: "estimate_maintainability (estimate_cyclomatic_complexity c) c \<le> 98.4" for c
    by (rule maintainability_bound [OF cyclomatic_ge_1])
  obtain eff conf where r: "resolve_language client code language = (eff, conf)"
    by (cases "resolve_language client code language")
  have "maintainability (analyze_code parse client code language) \<le> 98.4"
  proof (cases "valid (validate_code parse eff code)")
    case True
    show ?thesis
      unfolding analyze_code_valid [OF r True] run_analysis_fields by (rule b)
  next
    case False
    show ?thesis
    proof (cases "valid (validate_code parse eff (attempt_auto_correction client eff code))")
      case True
      show ?thesis
        unfolding analyze_code_corrected [OF r False True] run_analysis_fields by (rule b)
    next
      case F2: False
      show ?thesis
        unfolding analyze_code_invalid [OF r False F2] syntax_error_response_fields by simp
    qed
  qed
  with cyclomatic_ge_1 [of code] b [of code] show ?thesis by simp
qed

text \<open>The bound is reached by a text of one line without a branch keyword.\<close>

theorem maintainability_at_most_98_4_witness:
  "estimate_cyclomatic_complexity ''x = 1'' = 1
   \<and> estimate_maintainability (estimate_cyclomatic_complexity ''x = 1'') ''x = 1'' = 98.4
   \<and> maintainability (analyze_code rejecting_parser StubAIClient ''x = 1'' (Some ''generic'')) \<le> 98.4"
proof -
  have c: "estimate_cyclomatic_complexity ''x = 1'' = 1" by code_simp
  have m: "estimate_maintainability (estimate_cyclomatic_complexity ''x = 1'') ''x = 1'' = 98.4"
    by code_simp
  note t = maintainability_at_most_98_4 [of "''x = 1''" rejecting_parser StubAIClient "Some ''generic''"]
  show ?thesis
    by (rule conjI [OF c conjI [OF m t [THEN conjunct2, THEN conjunct2]]])
qed


section \<open>The rules of the syntax validator\<close>

text \<open>
  Claim C7, as the specification states it, has an unknown language always valid. The
  validator knows no rule for \<open>ruby\<close>, and checks its brackets all the same.
\<close>

theorem unknown_language_counterexample:
  "validate_code rejecting_parser ''ruby'' ''puts(1'' =
     \<lparr>valid = False, verror = Some ''Unbalanced brackets/braces''\<rparr>"
  by code_simp

text \<open>
  Claim C7, amended. With \<open>lang\<close> the language tag stripped and lower-cased,
  \<open>validate_code\<close> applies these rules in order. (1) Code that is empty or white space only
  is invalid with \<open>Empty code\<close>. (2) The tag \<open>generic\<close> and the empty tag (no language
  given) are always valid. (3) \<open>py\<close> and \<open>python\<close> go to the parser, and the text of its
  failure is the error. (4) Every other tag, a language without rules of its own included,
  is checked structurally: a text that is not well bracketed gives
  \<open>Unbalanced brackets/braces\<close>; else an odd number of single quotes, double quotes or
  backticks gives \<open>Unbalanced quotes\<close>; else, for the six semicolon languages, three or
  more non-blank lines and no semicolon give \<open>No semicolons found in multi-line code\<close>;
  otherwise the code is valid.
\<close>

theorem validate_code_rules:
  fixes parse :: "string \<Rightarrow> string + 'ast"
  assumes lang: "lang = lower (strip language)"
  shows
    "(strip code = [] \<longrightarrow>
        validate_code parse language code = \<lparr>valid = False, verror = Some ''Empty code''\<rparr>)
     \<and> (strip code \<noteq> [] \<and> lang \<in> {''generic'', []} \<longrightarrow>
        validate_code parse language code = \<lparr>valid = True, verror = None\<rparr>)
     \<and> (strip code \<noteq> [] \<and> lang \<in> {''py'', ''python''} \<longrightarrow>
        validate_code parse language code =
          (case parse code of Inl exc \<Rightarrow> \<lparr>valid = False, verror = Some exc\<rparr>
                            | Inr tree \<Rightarrow> \<lparr>valid = True, verror = None\<rparr>))
     \<and> (strip code \<noteq> [] \<and> lang \<notin> {''generic'', [], ''py'', ''python''} \<longrightarrow>
        validate_code parse language code =
          (if \<not> well_bracketed code
           then \<lparr>valid = False, verror = Some ''Unbalanced brackets/braces''\<rparr>
           else if odd (count_list code (CHR 0x27)) \<or> odd (count_list code (CHR 0x22)) \<or>
                   odd (count_list code (CHR 0x60))
           then \<lparr>valid = False, verror = Some ''Unbalanced quotes''\<rparr>
           else if lang \<in> {''javascript'', ''typescript'', ''java'', ''c'', ''cpp'', ''c++''} \<and>
                   3 \<le> length (filter (\<lambda>ln. strip ln \<noteq> []) (splitlines code)) \<and>
                   \<not> py_in '';'' code
           then \<lparr>valid = False, verror = Some ''No semicolons found in multi-line code''\<rparr>
           else \<lparr>valid = True, verror = None\<rparr>))"
proof -
  have 1: "validate_code parse language code = \<lparr>valid = False, verror = Some ''Empty code''\<rparr>"
    if "strip code = []"
    using that by (simp add: validate_code_def invalid_def)
  have 2: "validate_code parse language code = \<lparr>valid = True, verror = None\<rparr>"
    if "strip code \<noteq> [] \<and> lang \<in> {''generic'', []}"
    using that unfolding validate_code_def is_valid_def Let_def lang [symmetric]
    by (simp only: if_True if_False)
  have 3: "validate_code parse language code =
          (case parse code of Inl exc \<Rightarrow> \<lparr>valid = False, verror = Some exc\<rparr>
                            | Inr tree \<Rightarrow> \<lparr>valid = True, verror = None\<rparr>)"
    if h: "strip code \<noteq> [] \<and> lang \<in> {''py'', ''python''}"
  proof -
    from h have "lang \<notin> {''generic'', []}" by auto
    with h show ?thesis
      unfolding validate_code_def is_valid_def invalid_def Let_def lang [symmetric]
      by (simp only: if_True if_False)
  qed
  have 4: "validate_code parse language code =
          (if \<not> well_bracketed code
           then \<lparr>valid = False, verror = Some ''Unbalanced brackets/braces''\<rparr>
           else if odd (count_list code (CHR 0x27)) \<or> odd (count_list code (CHR 0x22)) \<or>
                   odd (count_list code (CHR 0x60))
           then \<lparr>valid = False, verror = Some ''Unbalanced quotes''\<rparr>
           else if lang \<in> {''javascript'', ''typescript'', ''java'', ''c'', ''cpp'', ''c++''} \<and>
                   3 \<le> length (filter (\<lambda>ln. strip ln \<noteq> []) (splitlines code)) \<and>
                   \<not> py_in '';'' code
           then \<lparr>valid = False, verror = Some ''No semicolons found in multi-line code''\<rparr>
           else \<lparr>valid = True, verror = None\<rparr>)"
    if h: "strip code \<noteq> [] \<and> lang \<notin> {''generic'', [], ''py'', ''python''}"
  proof -
    from h have a: "lang \<notin> {''generic'', []}" and b: "lang \<notin> {''py'', ''python''}"
      by simp_all
    have q: "(\<not> balanced_quotes code) = (odd (count_list code (CHR 0x27)) \<or>
        odd (count_list code (CHR 0x22)) \<or> odd (count_list code (CHR 0x60)))"
      unfolding balanced_quotes_even by simp
    have c: "(3 \<le> length (filter (\<lambda>ln. strip ln \<noteq> []) (splitlines code)) \<and> \<not> py_in '';'' code \<and>
        lang \<in> semicolon_languages) =
       (lang \<in> {''javascript'', ''typescript'', ''java'', ''c'', ''cpp'', ''c++''} \<and>
        3 \<le> length (filter (\<lambda>ln. strip ln \<noteq> []) (splitlines code)) \<and> \<not> py_in '';'' code)"
      unfolding semicolon_languages_def by (rule iffI; (elim conjE)?; (intro conjI)?; assumption)
    from h a b show ?thesis
      unfolding validate_code_def is_valid_def invalid_def Let_def lang [symmetric] q c
        balanced_brackets_iff
      by (simp only: if_True if_False)
  qed
  show ?thesis
    by (intro conjI impI) (rule 1 2 3 4, assumption)+
qed

text \<open>
  One input for each rule: white space as Python, an open bracket with the empty tag, a text
  the parser rejects, and three lines of JavaScript without a semicolon.
\<close>

theorem validate_code_rules_witness:
  "validate_code rejecting_parser ''python'' '' \<newline> '' = \<lparr>valid = False, verror = Some ''Empty code''\<rparr>
   \<and> validate_code rejecting_parser ''  '' ''('' = \<lparr>valid = True, verror = None\<rparr>
   \<and> validate_code rejecting_parser ''Python'' ''def'' = \<lparr>valid = False, verror = Some ''invalid syntax''\<rparr>
   \<and> validate_code rejecting_parser '' JavaScript'' ''a\<newline>b\<newline>c'' =
       \<lparr>valid = False, verror = Some ''No semicolons found in multi-line code''\<rparr>"
proof -
  have l1: "''python'' = lower (strip ''python'')" by code_simp
  have c1: "strip '' \<newline> '' = []" by code_simp
  have r1: "validate_code rejecting_parser ''python'' '' \<newline> '' = \<lparr>valid = False, verror = Some ''Empty code''\<rparr>"
    by (rule mp [OF validate_code_rules [where parse = rejecting_parser, OF l1, THEN conjunct1] c1])
  have l2: "[] = lower (strip ''  '')" by code_simp
  have c2: "strip ''('' \<noteq> [] \<and> [] \<in> {''generic'', []}" by code_simp
  have r2: "validate_code rejecting_parser ''  '' ''('' = \<lparr>valid = True, verror = None\<rparr>"
    by (rule mp [OF validate_code_rules [where parse = rejecting_parser, OF l2, THEN conjunct2, THEN conjunct1] c2])
  have l3: "''python'' = lower (strip ''Python'')" by code_simp
  have c3: "strip ''def'' \<noteq> [] \<and> ''python'' \<in> {''py'', ''python''}" by code_simp
  have e3: "(case rejecting_parser ''def'' of Inl exc \<Rightarrow> \<lparr>valid = False, verror = Some exc\<rparr>
                | Inr tree \<Rightarrow> \<lparr>valid = True, verror = None\<rparr>) =
            \<lparr>valid = False, verror = Some ''invalid syntax''\<rparr>"
    by (simp add: rejecting_parser_def)
  have r3: "validate_code rejecting_parser ''Python'' ''def'' = \<lparr>valid = False, verror = Some ''invalid syntax''\<rparr>"
    by (rule trans [OF mp [OF validate_code_rules [where parse = rejecting_parser, OF l3, THEN conjunct2, THEN conjunct2, THEN conjunct1] c3] e3])
  have l4: "''javascript'' = lower (strip '' JavaScript'')" by code_simp
  have c4: "strip ''a\<newline>b\<newline>c'' \<noteq> [] \<and> ''javascript'' \<notin> {''generic'', [], ''py'', ''python''}"
    by code_simp
  have e4: "(if \<not> well_bracketed ''a\<newline>b\<newline>c''
           then \<lparr>valid = False, verror = Some ''Unbalanced brackets/braces''\<rparr>
           else if odd (count_list ''a\<newline>b\<newline>c'' (CHR 0x27)) \<or> odd (count_list ''a\<newline>b\<newline>c'' (CHR 0x22)) \<or>
                   odd (count_list ''a\<newline>b\<newline>c'' (CHR 0x60))
           then \<lparr>valid = False, verror = Some ''Unbalanced quotes''\<rparr>
           else if ''javascript'' \<in> {''javascript'', ''typescript'', ''java'', ''c'', ''cpp'', ''c++''} \<and>
                   3 \<le> length (filter (\<lambda>ln. strip ln \<noteq> []) (splitlines ''a\<newline>b\<newline>c'')) \<and>
                   \<not> py_in '';'' ''a\<newline>b\<newline>c''
           then \<lparr>valid = False, verror = Some ''No semicolons found in multi-line code''\<rparr>
           else \<lparr>valid = True, verror = None\<rparr>) =
          \<lparr>valid = False, verror = Some ''No semicolons found in multi-line code''\<rparr>"
    unfolding balanced_brackets_iff [symmetric] by code_simp
  have r4: "validate_code rejecting_parser '' JavaScript'' ''a\<newline>b\<newline>c'' =
       \<lparr>valid = False, verror = Some ''No semicolons found in multi-line code''\<rparr>"
    by (rule trans [OF mp [OF validate_code_rules [where parse = rejecting_parser, OF l4, THEN conjunct2, THEN conjunct2, THEN conjunct2] c4] e4])
  show ?thesis
    by (rule conjI [OF r1 conjI [OF r2 conjI [OF r3 r4]]])
qed


section \<open>The decision order of the grammar-aware time estimate\<close>





section \<open>The verdict of a comparison\<close>

text \<open>
  Claim C4, as the specification states it, ranks every label other than \<open>O(1)\<close>, \<open>O(n)\<close>
  and \<open>O(n^2)\<close> after \<open>O(n^2)\<close>. With equal risk scores and cyclomatic complexities, a
  side labelled \<open>O(2^n)\<close> wins against a side labelled \<open>O(n^2)\<close>, and \<open>O(log n)\<close> ranks
  with \<open>O(n)\<close>.
\<close>

theorem big_o_rank_counterexample:
  "pick_better 0 0 1 1 (big_o_rank ''O(2^n)'') (big_o_rank ''O(n^2)'') = ''A''
   \<and> big_o_rank ''O(2^n)'' < big_o_rank ''O(n^2)''
   \<and> big_o_rank ''O(log n)'' = big_o_rank ''O(n)''"
  by code_simp

text \<open>
  Claim C4, amended. When both sides analyse successfully the verdict follows this chain:
  strictly lower risk score; on a tie strictly lower cyclomatic complexity; on a further tie
  strictly lower rank of the time-complexity label; on a full tie \<open>A\<close>. The rank of a label
  is read off its lower-cased text: 3 if it contains \<open>n^2\<close>, else 2 if it contains \<open>n)\<close> or
  \<open>o(n\<close>, else 1 if it contains \<open>1\<close>, else 4. So \<open>O(1)\<close> ranks 1, \<open>O(n)\<close>, \<open>O(log n)\<close> and
  \<open>O(2^n)\<close> rank 2, \<open>O(n^2)\<close> ranks 3, and a label such as \<open>N/A\<close> ranks 4.
\<close>

theorem verdict_chain:
  assumes "error (analyze_code parse client code_a language) = None"
    and "error (analyze_code parse client code_b language) = None"
  shows
    "verdict (compare_codes parse client code_a code_b language) =
       (let a = analyze_code parse client code_a language;
            b = analyze_code parse client code_b language
        in Some (if risk_score a < risk_score b then ''A''
                 else if risk_score b < risk_score a then ''B''
                 else if cyclomatic_complexity a < cyclomatic_complexity b then ''A''
                 else if cyclomatic_complexity b < cyclomatic_complexity a then ''B''
                 else if big_o_rank (big_o a) < big_o_rank (big_o b) then ''A''
                 else if big_o_rank (big_o b) < big_o_rank (big_o a) then ''B''
                 else ''A''))
     \<and> big_o_rank label =
         (if py_in ''n^2'' (lower label) then 3
          else if py_in ''n)'' (lower label) \<or> py_in ''o(n'' (lower label) then 2
          else if py_in ''1'' (lower label) then 1
          else 4)
     \<and> big_o_rank ''O(1)'' = 1 \<and> big_o_rank ''O(n)'' = 2 \<and> big_o_rank ''O(n^2)'' = 3
     \<and> big_o_rank ''O(log n)'' = 2 \<and> big_o_rank ''O(2^n)'' = 2 \<and> big_o_rank ''N/A'' = 4"
proof -
  have v: "verdict (compare_codes parse client code_a code_b language) =
       (let a = analyze_code parse client code_a language;
            b = analyze_code parse client code_b language
        in Some (if risk_score a < risk_score b then ''A''
                 else if risk_score b < risk_score a then ''B''
                 else if cyclomatic_complexity a < cyclomatic_complexity b then ''A''
                 else if cyclomatic_complexity b < cyclomatic_complexity a then ''B''
                 else if big_o_rank (big_o a) < big_o_rank (big_o b) then ''A''
                 else if big_o_rank (big_o b) < big_o_rank (big_o a) then ''B''
                 else ''A''))"
    using assms
    by (simp add: compare_codes_def compare_analyses_def verdict_def pick_better_def Let_def)
  have r: "big_o_rank label =
         (if py_in ''n^2'' (lower label) then 3
          else if py_in ''n)'' (lower label) \<or> py_in ''o(n'' (lower label) then 2
          else if py_in ''1'' (lower label) then 1
          else 4)"
    by (simp add: big_o_rank_def Let_def)
  have k: "big_o_rank ''O(1)'' = 1 \<and> big_o_rank ''O(n)'' = 2 \<and> big_o_rank ''O(n^2)'' = 3
     \<and> big_o_rank ''O(log n)'' = 2 \<and> big_o_rank ''O(2^n)'' = 2 \<and> big_o_rank ''N/A'' = 4"
    by code_simp
  show ?thesis
    by (rule conjI [OF v conjI [OF r k]])
qed

text \<open>
  With the stub client, \<open>x = 1\<close> has cyclomatic complexity 1 and \<open>if x: y\<close> has 2, at equal
  risk scores: the first wins from either position.
\<close>

theorem verdict_chain_witness:
  "error (analyze_code rejecting_parser StubAIClient ''x = 1'' (Some ''generic'')) = None
   \<and> error (analyze_code rejecting_parser StubAIClient ''if x: y'' (Some ''generic'')) = None
   \<and> verdict (compare_codes rejecting_parser StubAIClient ''x = 1'' ''if x: y'' (Some ''generic'')) = Some ''A''
   \<and> verdict (compare_codes rejecting_parser StubAIClient ''if x: y'' ''x = 1'' (Some ''generic'')) = Some ''B''"
proof -
  have ea: "error (analyze_code rejecting_parser StubAIClient ''x = 1'' (Some ''generic'')) = None"
    by code_simp
  have eb: "error (analyze_code rejecting_parser StubAIClient ''if x: y'' (Some ''generic'')) = None"
    by code_simp
  have v1: "(let a = analyze_code rejecting_parser StubAIClient ''x = 1'' (Some ''generic'');
            b = analyze_code rejecting_parser StubAIClient ''if x: y'' (Some ''generic'')
        in Some (if risk_score a < risk_score b then ''A''
                 else if risk_score b < risk_score a then ''B''
                 else if cyclomatic_complexity a < cyclomatic_complexity b then ''A''
                 else if cyclomatic_complexity b < cyclomatic_complexity a then ''B''
                 else if big_o_rank (big_o a) < big_o_rank (big_o b) then ''A''
                 else if big_o_rank (big_o b) < big_o_rank (big_o a) then ''B''
                 else ''A'')) = Some ''A''"
    by code_simp
  have v2: "(let a = analyze_code rejecting_parser StubAIClient ''if x: y'' (Some ''generic'');
            b = analyze_code rejecting_parser StubAIClient ''x = 1'' (Some ''generic'')
        in Some (if risk_score a < risk_score b then ''A''
                 else if risk_score b < risk_score a then ''B''
                 else if cyclomatic_complexity a < cyclomatic_complexity b then ''A''
                 else if cyclomatic_complexity b < cyclomatic_complexity a then ''B''
                 else if big_o_rank (big_o a) < big_o_rank (big_o b) then ''A''
                 else if big_o_rank (big_o b) < big_o_rank (big_o a) then ''B''
                 else ''A'')) = Some ''B''"
    by code_simp
  have r1: "verdict (compare_codes rejecting_parser StubAIClient ''x = 1'' ''if x: y'' (Some ''generic'')) = Some ''A''"
    by (rule trans [OF verdict_chain [OF ea eb, THEN conjunct1] v1])
  have r2: "verdict (compare_codes rejecting_parser StubAIClient ''if x: y'' ''x = 1'' (Some ''generic'')) = Some ''B''"
    by (rule trans [OF verdict_chain [OF eb ea, THEN conjunct1] v2])
  show ?thesis
    by (rule conjI [OF ea conjI [OF eb conjI [OF r1 r2]]])
qed


section \<open>The message of the error result\<close>

text \<open>
  Claim C2, as the specification states it, has the error result carry the message of the
  second validation. For JavaScript, the text \<open>(\<close> and a collaborator whose correction is
  a lone quote, the first validation says \<open>Unbalanced brackets/braces\<close>, the second says
  \<open>Unbalanced quotes\<close>, and the result carries the first.
\<close>

theorem error_message_counterexample:
  "resolve_language (constant_client [CHR 0x27]) ''('' (Some ''javascript'') = (''javascript'', 0)
   \<and> verror (validate_code rejecting_parser ''javascript'' ''('') = Some ''Unbalanced brackets/braces''
   \<and> verror (validate_code rejecting_parser ''javascript''
        (attempt_auto_correction (constant_client [CHR 0x27]) ''javascript'' ''(''))
       = Some ''Unbalanced quotes''
   \<and> error (analyze_code rejecting_parser (constant_client [CHR 0x27]) ''('' (Some ''javascript''))
       = Some ''SyntaxError''
   \<and> message (analyze_code rejecting_parser (constant_client [CHR 0x27]) ''('' (Some ''javascript''))
       = Some ''Unbalanced brackets/braces''"
  by code_simp

text \<open>
  Claim C2, amended. Whenever the pipeline ends in the invalid-after-correction outcome,
  that is, the code fails the first validation and the candidate fails the second, the
  result has kind \<open>SyntaxError\<close> and its message is the error of the first validation, of the
  original code; the fixed text \<open>Code is invalid even after correction.\<close> stands in when
  that error is empty.
\<close>

theorem error_message_is_first_validation:
  assumes "resolve_language client code language = (eff, conf)"
    and "\<not> valid (validate_code parse eff code)"
    and "\<not> valid (validate_code parse eff (attempt_auto_correction client eff code))"
  shows
    "error (analyze_code parse client code language) = Some ''SyntaxError''
     \<and> (\<exists>e. verror (validate_code parse eff code) = Some e
          \<and> message (analyze_code parse client code language) =
              Some (if e \<noteq> [] then e else ''Code is invalid even after correction.''))"
proof -
  have r: "analyze_code parse client code language =
     syntax_error_response eff conf False False None (error_message (validate_code parse eff code))"
    by (rule analyze_code_invalid [OF assms])
  obtain e where e: "verror (validate_code parse eff code) = Some e"
    using invalid_has_error [OF assms(2)] by (rule exE)
  have m: "error_message (validate_code parse eff code) =
      (if e \<noteq> [] then e else ''Code is invalid even after correction.'')"
    by (simp add: error_message_def e or_str_def)
  have 1: "error (analyze_code parse client code language) = Some ''SyntaxError''"
    unfolding r by (rule syntax_error_response_fields)
  have 2: "message (analyze_code parse client code language) =
      Some (if e \<noteq> [] then e else ''Code is invalid even after correction.'')"
    unfolding r syntax_error_response_fields m ..
  from 1 e 2 show ?thesis by (intro conjI exI [of _ e])
qed

theorem error_message_is_first_validation_witness:
  "error (analyze_code rejecting_parser (constant_client [CHR 0x27]) ''('' (Some ''javascript''))
       = Some ''SyntaxError''
   \<and> message (analyze_code rejecting_parser (constant_client [CHR 0x27]) ''('' (Some ''javascript''))
       = Some ''Unbalanced brackets/braces''"
proof -
  have h1: "resolve_language (constant_client [CHR 0x27]) ''('' (Some ''javascript'') = (''javascript'', 0)"
    by code_simp
  have h2: "\<not> valid (validate_code rejecting_parser ''javascript'' ''('')"
    by code_simp
  have h3: "\<not> valid (validate_code rejecting_parser ''javascript''
        (attempt_auto_correction (constant_client [CHR 0x27]) ''javascript'' ''(''))"
    by code_simp
  have v: "verror (validate_code rejecting_parser ''javascript'' ''('') = Some ''Unbalanced brackets/braces''"
    by code_simp
  note t = error_message_is_first_validation [OF h1 h2 h3]
  obtain e where e: "verror (validate_code rejecting_parser ''javascript'' ''('') = Some e"
    and m: "message (analyze_code rejecting_parser (constant_client [CHR 0x27]) ''('' (Some ''javascript'')) =
              Some (if e \<noteq> [] then e else ''Code is invalid even after correction.'')"
    using t [THEN conjunct2] by (elim exE conjE)
  from e v have "e = ''Unbalanced brackets/braces''" by simp
  with m have "message (analyze_code rejecting_parser (constant_client [CHR 0x27]) ''('' (Some ''javascript''))
       = Some ''Unbalanced brackets/braces''" by simp
  with t [THEN conjunct1] show ?thesis by (rule conjI)
qed


section \<open>No metrics for invalid code\<close>

text \<open>
  Claim C8, as the specification states it, counts the empty-string input among the cases
  that end in the error result. The pipeline sends the empty text to the correction step
  like any other invalid text: with a collaborator that answers \<open>x = 1\<close>, the empty input
  comes back as an analysis result with computed metrics, those of the answer.
\<close>

theorem empty_input_counterexample:
  "error (analyze_code rejecting_parser (constant_client ''x = 1'') [] None) = None
   \<and> was_corrected (analyze_code rejecting_parser (constant_client ''x = 1'') [] None)
   \<and> corrected_code (analyze_code rejecting_parser (constant_client ''x = 1'') [] None) = Some ''x = 1''
   \<and> big_o (analyze_code rejecting_parser (constant_client ''x = 1'') [] None) = ''O(1)''
   \<and> cyclomatic_complexity (analyze_code rejecting_parser (constant_client ''x = 1'') [] None) = 1
   \<and> maintainability (analyze_code rejecting_parser (constant_client ''x = 1'') [] None) = 98.4"
  by code_simp

text \<open>
  Claim C8, amended. With \<open>eff\<close> the resolved language: (1) when the code fails the first
  validation and the candidate fails the second, the result is the error payload, tagged
  \<open>SyntaxError\<close>, with label \<open>N/A\<close>, cyclomatic complexity 0, maintainability 0 and risk
  score 0, whatever the code; (2) a result without error tag is the analysis of a text that
  passed validation; (3) the empty-string input ends in the error payload, with message
  \<open>Empty code\<close>, whenever the reply to the correction prompt is blank or carries the stub
  marker.
\<close>

theorem no_metrics_for_invalid_code:
  assumes r: "resolve_language client code language = (eff, conf)"
    and r0: "resolve_language client [] language = (eff0, conf0)"
  shows
    "(\<not> valid (validate_code parse eff code) \<and>
      \<not> valid (validate_code parse eff (attempt_auto_correction client eff code)) \<longrightarrow>
        analyze_code parse client code language =
          syntax_error_response eff conf False False None
            (error_message (validate_code parse eff code))
        \<and> error (analyze_code parse client code language) = Some ''SyntaxError''
        \<and> big_o (analyze_code parse client code language) = ''N/A''
        \<and> cyclomatic_complexity (analyze_code parse client code language) = 0
        \<and> maintainability (analyze_code parse client code language) = 0
        \<and> risk_score (analyze_code parse client code language) = 0)
     \<and> (error (analyze_code parse client code language) = None \<longrightarrow>
          (\<exists>final wc ov. valid (validate_code parse eff final) \<and>
             analyze_code parse client code language =
               run_analysis parse client final eff conf wc ov))
     \<and> (py_in ''stubbed ai'' (lower (chat client (correction_prompt eff0 []))) \<or>
        strip (chat client (correction_prompt eff0 [])) = [] \<longrightarrow>
          analyze_code parse client [] language =
            syntax_error_response eff0 conf0 False False None ''Empty code'')"
proof -
  have 1: "analyze_code parse client code language =
          syntax_error_response eff conf False False None
            (error_message (validate_code parse eff code))
        \<and> error (analyze_code parse client code language) = Some ''SyntaxError''
        \<and> big_o (analyze_code parse client code language) = ''N/A''
        \<and> cyclomatic_complexity (analyze_code parse client code language) = 0
        \<and> maintainability (analyze_code parse client code language) = 0
        \<and> risk_score (analyze_code parse client code language) = 0"
    if h: "\<not> valid (validate_code parse eff code) \<and>
      \<not> valid (validate_code parse eff (attempt_auto_correction client eff code))"
  proof -
    note e = analyze_code_invalid [OF r h [THEN conjunct1] h [THEN conjunct2]]
    show ?thesis
      unfolding e syntax_error_response_fields by (intro conjI refl)
  qed
  have 2: "\<exists>final wc ov. valid (validate_code parse eff final) \<and>
             analyze_code parse client code language =
               run_analysis parse client final eff conf wc ov"
    if h: "error (analyze_code parse client code language) = None"
  proof (cases "valid (validate_code parse eff code)")
    case True
    from True analyze_code_valid [OF r True] show ?thesis by blast
  next
    case False
    show ?thesis
    proof (cases "valid (validate_code parse eff (attempt_auto_correction client eff code))")
      case True
      from True analyze_code_corrected [OF r False True] show ?thesis by blast
    next
      case F2: False
      from h have False
        unfolding analyze_code_invalid [OF r False F2] syntax_error_response_fields by simp
      then show ?thesis ..
    qed
  qed
  have 3: "analyze_code parse client [] language =
            syntax_error_response eff0 conf0 False False None ''Empty code''"
    if h: "py_in ''stubbed ai'' (lower (chat client (correction_prompt eff0 []))) \<or>
        strip (chat client (correction_prompt eff0 [])) = []"
  proof -
    have s: "strip [] = []" by (simp add: strip_def)
    have v: "validate_code parse eff0 [] = invalid ''Empty code''"
      unfolding validate_code_def Let_def s by simp
    have c: "attempt_auto_correction client eff0 [] = []"
      using h unfolding attempt_auto_correction_def Let_def by simp
    have n1: "\<not> valid (validate_code parse eff0 [])"
      unfolding v by (simp add: invalid_def)
    have n2: "\<not> valid (validate_code parse eff0 (attempt_auto_correction client eff0 []))"
      unfolding c v by (simp add: invalid_def)
    have m: "error_message (validate_code parse eff0 []) = ''Empty code''"
      unfolding v by (simp add: error_message_def invalid_def or_str_def)
    show ?thesis
      unfolding analyze_code_invalid [OF r0 n1 n2] m ..
  qed
  show ?thesis
    by (rule conjI [OF impI [OF 1] conjI [OF impI [OF 2] impI [OF 3]]])
qed

text \<open>The stub client on the empty input, and on a valid text.\<close>

theorem no_metrics_for_invalid_code_witness:
  "analyze_code rejecting_parser StubAIClient [] (Some ''generic'') =
     syntax_error_response ''generic'' 0 False False None ''Empty code''
   \<and> big_o (analyze_code rejecting_parser StubAIClient [] (Some ''generic'')) = ''N/A''
   \<and> risk_score (analyze_code rejecting_parser StubAIClient [] (Some ''generic'')) = 0
   \<and> valid (validate_code rejecting_parser ''generic'' ''x = 1'')
   \<and> error (analyze_code rejecting_parser StubAIClient ''x = 1'' (Some ''generic'')) = None"
proof -
  have r0: "resolve_language StubAIClient [] (Some ''generic'') = (''generic'', 0)"
    by code_simp
  have r1: "resolve_language StubAIClient ''x = 1'' (Some ''generic'') = (''generic'', 0)"
    by code_simp
  have h: "\<not> valid (validate_code rejecting_parser ''generic'' []) \<and>
      \<not> valid (validate_code rejecting_parser ''generic''
          (attempt_auto_correction StubAIClient ''generic'' []))"
    by code_simp
  have s: "py_in ''stubbed ai'' (lower (chat StubAIClient (correction_prompt ''generic'' []))) \<or>
        strip (chat StubAIClient (correction_prompt ''generic'' [])) = []"
    by code_simp
  have e1: "error (analyze_code rejecting_parser StubAIClient ''x = 1'' (Some ''generic'')) = None"
    by code_simp
  have v1: "valid (validate_code rejecting_parser ''generic'' ''x = 1'')"
    by code_simp
  note t = no_metrics_for_invalid_code [OF r0 r0, where parse = rejecting_parser]
  note a = mp [OF t [THEN conjunct1] h]
  note b = mp [OF t [THEN conjunct2, THEN conjunct2] s]
  note u = no_metrics_for_invalid_code [OF r1 r0, where parse = rejecting_parser]
  from mp [OF u [THEN conjunct2, THEN conjunct1] e1]
  have "\<exists>final wc ov. valid (validate_code rejecting_parser ''generic'' final) \<and>
      analyze_code rejecting_parser StubAIClient ''x = 1'' (Some ''generic'') =
        run_analysis rejecting_parser StubAIClient final ''generic'' 0 wc ov" .
  show ?thesis
    by (intro conjI b a [THEN conjunct2, THEN conjunct2, THEN conjunct1]
        a [THEN conjunct2, THEN conjunct2, THEN conjunct2, THEN conjunct2, THEN conjunct2] v1 e1)
qed


section \<open>Swapping the two sides of a comparison\<close>

text \<open>
  Claim C3, as the specification states it, has \<open>compare(A, B)\<close> and \<open>compare(B, A)\<close> name
  the same version as the better one. The texts \<open>x = 1\<close> and \<open>y = 2\<close> both analyse
  successfully and tie on risk score, cyclomatic complexity and rank: each call answers
  \<open>A\<close>, which is \<open>x = 1\<close> in one call and \<open>y = 2\<close> in the other.
\<close>

theorem symmetry_counterexample:
  "error (analyze_code rejecting_parser StubAIClient ''x = 1'' (Some ''generic'')) = None
   \<and> error (analyze_code rejecting_parser StubAIClient ''y = 2'' (Some ''generic'')) = None
   \<and> verdict (compare_codes rejecting_parser StubAIClient ''x = 1'' ''y = 2'' (Some ''generic'')) = Some ''A''
   \<and> verdict (compare_codes rejecting_parser StubAIClient ''y = 2'' ''x = 1'' (Some ''generic'')) = Some ''A''"
  by code_simp

text \<open>
  Claim C3, amended. For every pair of inputs that both analyse successfully, with the same
  collaborator answers in both calls, the deltas of \<open>compare(B, A)\<close> are the negated deltas
  of \<open>compare(A, B)\<close>; unless the two sides tie on risk score, cyclomatic complexity and
  rank of the time-complexity label, the two calls name the same version (one says \<open>A\<close>,
  the other \<open>B\<close>); on such a tie both calls answer \<open>A\<close>.
\<close>

theorem compare_codes_swap:
  assumes "error (analyze_code parse client code_a language) = None"
    and "error (analyze_code parse client code_b language) = None"
  shows
    "(let a = analyze_code parse client code_a language;
          b = analyze_code parse client code_b language;
          ab = compare_codes parse client code_a code_b language;
          ba = compare_codes parse client code_b code_a language;
          tie = (risk_score a = risk_score b \<and> cyclomatic_complexity a = cyclomatic_complexity b \<and>
                 big_o_rank (big_o a) = big_o_rank (big_o b))
      in deltas ab = Some (cyclomatic_complexity b - cyclomatic_complexity a, risk_score b - risk_score a)
         \<and> deltas ba = Some (- (cyclomatic_complexity b - cyclomatic_complexity a),
                             - (risk_score b - risk_score a))
         \<and> (if tie then verdict ab = Some ''A'' \<and> verdict ba = Some ''A''
            else (verdict ab = Some ''A'' \<and> verdict ba = Some ''B'') \<or>
                 (verdict ab = Some ''B'' \<and> verdict ba = Some ''A'')))"
  using assms
  by (simp add: compare_codes_def compare_analyses_def verdict_def deltas_def pick_better_def Let_def)

text \<open>A pair that differs in cyclomatic complexity, and a pair that ties.\<close>

theorem compare_codes_swap_witness:
  "verdict (compare_codes rejecting_parser StubAIClient ''x = 1'' ''if x: y'' (Some ''generic'')) = Some ''A''
   \<and> verdict (compare_codes rejecting_parser StubAIClient ''if x: y'' ''x = 1'' (Some ''generic'')) = Some ''B''
   \<and> deltas (compare_codes rejecting_parser StubAIClient ''x = 1'' ''if x: y'' (Some ''generic'')) = Some (1, 0)
   \<and> deltas (compare_codes rejecting_parser StubAIClient ''if x: y'' ''x = 1'' (Some ''generic'')) = Some (- 1, 0)
   \<and> verdict (compare_codes rejecting_parser StubAIClient ''x = 1'' ''y = 2'' (Some ''generic'')) = Some ''A''
   \<and> verdict (compare_codes rejecting_parser StubAIClient ''y = 2'' ''x = 1'' (Some ''generic'')) = Some ''A''"
proof -
  let ?an = "\<lambda>code. analyze_code rejecting_parser StubAIClient code (Some ''generic'')"
  have ex: "error (?an ''x = 1'') = None" by code_simp
  have ei: "error (?an ''if x: y'') = None" by code_simp
  have ey: "error (?an ''y = 2'') = None" by code_simp
  have fx: "risk_score (?an ''x = 1'') = 0" "cyclomatic_complexity (?an ''x = 1'') = 1"
    "big_o_rank (big_o (?an ''x = 1'')) = 1"
    by code_simp+
  have fi: "risk_score (?an ''if x: y'') = 0" "cyclomatic_complexity (?an ''if x: y'') = 2"
    by code_simp+
  have fy: "risk_score (?an ''y = 2'') = 0" "cyclomatic_complexity (?an ''y = 2'') = 1"
    "big_o_rank (big_o (?an ''y = 2'')) = 1"
    by code_simp+
  note t1 = compare_codes_swap [OF ex ei, unfolded Let_def fx fi]
  note t2 = compare_codes_swap [OF ex ey, unfolded Let_def fx fy]
  have ne: "''A'' \<noteq> ''B''" by simp
  have d1: "deltas (compare_codes rejecting_parser StubAIClient ''x = 1'' ''if x: y'' (Some ''generic'')) = Some (1, 0)"
    using t1 [THEN conjunct1] by simp
  have d2: "deltas (compare_codes rejecting_parser StubAIClient ''if x: y'' ''x = 1'' (Some ''generic'')) = Some (- 1, 0)"
    using t1 [THEN conjunct2, THEN conjunct1] by simp
  have a1: "verdict (compare_codes rejecting_parser StubAIClient ''x = 1'' ''if x: y'' (Some ''generic'')) = Some ''A''"
    by code_simp
  have b1: "verdict (compare_codes rejecting_parser StubAIClient ''if x: y'' ''x = 1'' (Some ''generic'')) = Some ''B''"
    using t1 [THEN conjunct2, THEN conjunct2] a1 by simp
  have t: "verdict (compare_codes rejecting_parser StubAIClient ''x = 1'' ''y = 2'' (Some ''generic'')) = Some ''A''
     \<and> verdict (compare_codes rejecting_parser StubAIClient ''y = 2'' ''x = 1'' (Some ''generic'')) = Some ''A''"
    using t2 [THEN conjunct2, THEN conjunct2] by simp
  show ?thesis
    by (intro conjI a1 b1 d1 d2 t [THEN conjunct1] t [THEN conjunct2])
qed

end
